theory Spec2Isabelle
  imports Complex_Main "HOL-Library.Word"
begin

section \<open>Texture formats (utils.h)\<close>

text \<open>
  The two enumerations come from the Windows SDK and from the PVR SDK. Each is a datatype
  with one constructor for every enumerator that utils.h names, and one constructor that
  stands for every other value of the enumeration.
\<close>

datatype DXGI_FORMAT =
    DXGI_FORMAT_UNKNOWN
  | DXGI_FORMAT_R8G8B8A8_TYPELESS
  | DXGI_FORMAT_R8G8B8A8_UNORM
  | DXGI_FORMAT_R8G8B8A8_UNORM_SRGB
  | DXGI_FORMAT_B8G8R8A8_TYPELESS
  | DXGI_FORMAT_B8G8R8A8_UNORM
  | DXGI_FORMAT_B8G8R8A8_UNORM_SRGB
  | DXGI_FORMAT_B8G8R8X8_TYPELESS
  | DXGI_FORMAT_B8G8R8X8_UNORM
  | DXGI_FORMAT_B8G8R8X8_UNORM_SRGB
  | DXGI_FORMAT_R16G16B16A16_TYPELESS
  | DXGI_FORMAT_R16G16B16A16_FLOAT
  | DXGI_FORMAT_R32_TYPELESS
  | DXGI_FORMAT_D32_FLOAT
  | DXGI_FORMAT_R32G8X24_TYPELESS
  | DXGI_FORMAT_D32_FLOAT_S8X24_UINT
  | DXGI_FORMAT_R24G8_TYPELESS
  | DXGI_FORMAT_D24_UNORM_S8_UINT
  | DXGI_FORMAT_R16_TYPELESS
  | DXGI_FORMAT_D16_UNORM
  | DXGI_FORMAT_other nat

datatype pvrTextureFormat =
    PVR_FORMAT_UNKNOWN
  | PVR_FORMAT_R8G8B8A8_UNORM
  | PVR_FORMAT_R8G8B8A8_UNORM_SRGB
  | PVR_FORMAT_B8G8R8A8_UNORM
  | PVR_FORMAT_B8G8R8A8_UNORM_SRGB
  | PVR_FORMAT_B8G8R8X8_UNORM
  | PVR_FORMAT_B8G8R8X8_UNORM_SRGB
  | PVR_FORMAT_R16G16B16A16_FLOAT
  | PVR_FORMAT_D16_UNORM
  | PVR_FORMAT_D24_UNORM_S8_UINT
  | PVR_FORMAT_D32_FLOAT
  | PVR_FORMAT_D32_FLOAT_S8X24_UINT
  | PVR_FORMAT_other nat

text \<open>utils.h, getTypelessFormat: a switch whose fall-through returns the argument.\<close>

definition getTypelessFormat :: "DXGI_FORMAT \<Rightarrow> DXGI_FORMAT" where
  "getTypelessFormat format =
     (if format = DXGI_FORMAT_R8G8B8A8_UNORM_SRGB \<or> format = DXGI_FORMAT_R8G8B8A8_UNORM
        then DXGI_FORMAT_R8G8B8A8_TYPELESS
      else if format = DXGI_FORMAT_B8G8R8A8_UNORM_SRGB \<or> format = DXGI_FORMAT_B8G8R8A8_UNORM
        then DXGI_FORMAT_B8G8R8A8_TYPELESS
      else if format = DXGI_FORMAT_B8G8R8X8_UNORM_SRGB \<or> format = DXGI_FORMAT_B8G8R8X8_UNORM
        then DXGI_FORMAT_B8G8R8X8_TYPELESS
      else if format = DXGI_FORMAT_R16G16B16A16_FLOAT then DXGI_FORMAT_R16G16B16A16_TYPELESS
      else if format = DXGI_FORMAT_D32_FLOAT then DXGI_FORMAT_R32_TYPELESS
      else if format = DXGI_FORMAT_D32_FLOAT_S8X24_UINT then DXGI_FORMAT_R32G8X24_TYPELESS
      else if format = DXGI_FORMAT_D24_UNORM_S8_UINT then DXGI_FORMAT_R24G8_TYPELESS
      else if format = DXGI_FORMAT_D16_UNORM then DXGI_FORMAT_R16_TYPELESS
      else format)"

text \<open>utils.h, isSRGBFormat.\<close>

definition isSRGBFormat :: "DXGI_FORMAT \<Rightarrow> bool" where
  "isSRGBFormat format =
     (if format = DXGI_FORMAT_R8G8B8A8_UNORM_SRGB
         \<or> format = DXGI_FORMAT_B8G8R8A8_UNORM_SRGB
         \<or> format = DXGI_FORMAT_B8G8R8X8_UNORM_SRGB
      then True else False)"

text \<open>utils.h, dxgiToPvrTextureFormat: eleven cases and a default.\<close>

definition dxgiToPvrTextureFormat :: "DXGI_FORMAT \<Rightarrow> pvrTextureFormat" where
  "dxgiToPvrTextureFormat format =
     (if format = DXGI_FORMAT_R8G8B8A8_UNORM then PVR_FORMAT_R8G8B8A8_UNORM
      else if format = DXGI_FORMAT_R8G8B8A8_UNORM_SRGB then PVR_FORMAT_R8G8B8A8_UNORM_SRGB
      else if format = DXGI_FORMAT_B8G8R8A8_UNORM then PVR_FORMAT_B8G8R8A8_UNORM
      else if format = DXGI_FORMAT_B8G8R8A8_UNORM_SRGB then PVR_FORMAT_B8G8R8A8_UNORM_SRGB
      else if format = DXGI_FORMAT_B8G8R8X8_UNORM then PVR_FORMAT_B8G8R8X8_UNORM
      else if format = DXGI_FORMAT_B8G8R8X8_UNORM_SRGB then PVR_FORMAT_B8G8R8X8_UNORM_SRGB
      else if format = DXGI_FORMAT_R16G16B16A16_FLOAT then PVR_FORMAT_R16G16B16A16_FLOAT
      else if format = DXGI_FORMAT_D16_UNORM then PVR_FORMAT_D16_UNORM
      else if format = DXGI_FORMAT_D24_UNORM_S8_UINT then PVR_FORMAT_D24_UNORM_S8_UINT
      else if format = DXGI_FORMAT_D32_FLOAT then PVR_FORMAT_D32_FLOAT
      else if format = DXGI_FORMAT_D32_FLOAT_S8X24_UINT then PVR_FORMAT_D32_FLOAT_S8X24_UINT
      else PVR_FORMAT_UNKNOWN)"

text \<open>utils.h, pvrToDxgiTextureFormat: the same eleven pairs read the other way.\<close>

definition pvrToDxgiTextureFormat :: "pvrTextureFormat \<Rightarrow> DXGI_FORMAT" where
  "pvrToDxgiTextureFormat format =
     (if format = PVR_FORMAT_R8G8B8A8_UNORM then DXGI_FORMAT_R8G8B8A8_UNORM
      else if format = PVR_FORMAT_R8G8B8A8_UNORM_SRGB then DXGI_FORMAT_R8G8B8A8_UNORM_SRGB
      else if format = PVR_FORMAT_B8G8R8A8_UNORM then DXGI_FORMAT_B8G8R8A8_UNORM
      else if format = PVR_FORMAT_B8G8R8A8_UNORM_SRGB then DXGI_FORMAT_B8G8R8A8_UNORM_SRGB
      else if format = PVR_FORMAT_B8G8R8X8_UNORM then DXGI_FORMAT_B8G8R8X8_UNORM
      else if format = PVR_FORMAT_B8G8R8X8_UNORM_SRGB then DXGI_FORMAT_B8G8R8X8_UNORM_SRGB
      else if format = PVR_FORMAT_R16G16B16A16_FLOAT then DXGI_FORMAT_R16G16B16A16_FLOAT
      else if format = PVR_FORMAT_D16_UNORM then DXGI_FORMAT_D16_UNORM
      else if format = PVR_FORMAT_D24_UNORM_S8_UINT then DXGI_FORMAT_D24_UNORM_S8_UINT
      else if format = PVR_FORMAT_D32_FLOAT then DXGI_FORMAT_D32_FLOAT
      else if format = PVR_FORMAT_D32_FLOAT_S8X24_UINT then DXGI_FORMAT_D32_FLOAT_S8X24_UINT
      else DXGI_FORMAT_UNKNOWN)"

section \<open>OpenXR types used by system.cpp\<close>

datatype XrResult =
    XR_SUCCESS
  | XR_ERROR_VALIDATION_FAILURE
  | XR_ERROR_HANDLE_INVALID
  | XR_ERROR_SYSTEM_INVALID
  | XR_ERROR_FORM_FACTOR_UNSUPPORTED
  | XR_ERROR_FORM_FACTOR_UNAVAILABLE
  | XR_ERROR_VIEW_CONFIGURATION_TYPE_UNSUPPORTED
  | XR_ERROR_SIZE_INSUFFICIENT

datatype XrStructureType =
    XR_TYPE_SYSTEM_GET_INFO
  | XR_TYPE_SYSTEM_PROPERTIES
  | XR_TYPE_SYSTEM_HAND_TRACKING_PROPERTIES_EXT
  | XR_TYPE_SYSTEM_EYE_GAZE_INTERACTION_PROPERTIES_EXT
  | XR_TYPE_other nat

datatype XrFormFactor =
    XR_FORM_FACTOR_HEAD_MOUNTED_DISPLAY
  | XR_FORM_FACTOR_HANDHELD_DISPLAY
  | XR_FORM_FACTOR_other nat

datatype XrViewConfigurationType =
    XR_VIEW_CONFIGURATION_TYPE_PRIMARY_MONO
  | XR_VIEW_CONFIGURATION_TYPE_PRIMARY_STEREO
  | XR_VIEW_CONFIGURATION_TYPE_other nat

datatype XrEnvironmentBlendMode =
    XR_ENVIRONMENT_BLEND_MODE_OPAQUE
  | XR_ENVIRONMENT_BLEND_MODE_ADDITIVE
  | XR_ENVIRONMENT_BLEND_MODE_ALPHA_BLEND

text \<open>Handles and identifiers are 64-bit values; the one live handle is the value 1.\<close>

type_synonym XrInstance = "64 word"
type_synonym XrSystemId = "64 word"

section \<open>PVR SDK types used by system.cpp\<close>

text \<open>
  The PVR SDK is a closed vendor library. Its result enumeration is taken from the
  enumerators that utils.h names in \<open>ToString(pvrResult)\<close>, with one more constructor
  for every other value.
\<close>

datatype pvrResult =
    pvr_success
  | pvr_failed
  | pvr_dll_failed
  | pvr_dll_wrong
  | pvr_interface_not_found
  | pvr_invalid_param
  | pvr_rpc_failed
  | pvr_share_mem_failed
  | pvr_unsupport_render_name
  | pvr_no_display
  | pvr_no_render_device
  | pvr_app_not_visible
  | pvr_srv_not_ready
  | pvr_dll_srv_mismatch
  | pvr_app_adapter_mismatch
  | pvr_not_support
  | pvr_result_other int

text \<open>A session handle is a pointer; \<open>None\<close> is the null pointer.\<close>

type_synonym pvrSessionHandle = "nat option"

datatype pvrEyeType = pvrEye_Left | pvrEye_Right

datatype pvrTrackingOrigin = pvrTrackingOrigin_EyeLevel | pvrTrackingOrigin_FloorLevel

record pvrHmdStatus =
  ServiceReady :: bool
  HmdPresent :: bool
  HmdMounted :: bool
  IsVisible :: bool
  DisplayLost :: bool
  ShouldQuit :: bool

text \<open>
  The character arrays of \<open>pvrHmdInfo\<close> hold NUL-terminated text; a \<open>string\<close> is the
  text before the terminator, which is what \<open>std::string_view\<close> and \<open>%s\<close> read.
\<close>

record pvrHmdInfo =
  VendorId :: int
  ProductId :: int
  Manufacturer :: string
  ProductName :: string
  SerialNumber :: string
  FirmwareMinor :: int
  FirmwareMajor :: int
  ResolutionW :: int
  ResolutionH :: int

text \<open>Single-precision values are read as the real numbers they denote.\<close>

record pvrQuatf =
  qx :: real
  qy :: real
  qz :: real
  qw :: real

record pvrVector3f =
  vx :: real
  vy :: real
  vz :: real

record pvrPosef =
  Orientation :: pvrQuatf
  Position :: pvrVector3f

record pvrFovPort =
  UpTan :: real
  DownTan :: real
  LeftTan :: real
  RightTan :: real

record pvrEyeRenderInfo =
  Fov :: pvrFovPort
  HmdToEyePose :: pvrPosef

record XrFovf =
  angleLeft :: real
  angleRight :: real
  angleUp :: real
  angleDown :: real

datatype EyeTracking = EyeTracking_None | EyeTracking_PVR | EyeTracking_aSeeVR | EyeTracking_Simulated

text \<open>The value of a value-initialised \<open>pvrHmdInfo{}\<close>.\<close>

definition pvrHmdInfo_zero :: pvrHmdInfo where
  "pvrHmdInfo_zero =
     \<lparr>VendorId = 0, ProductId = 0, Manufacturer = [], ProductName = [], SerialNumber = [],
      FirmwareMinor = 0, FirmwareMajor = 0, ResolutionW = 0, ResolutionH = 0\<rparr>"

definition pvrHmdStatus_zero :: pvrHmdStatus where
  "pvrHmdStatus_zero =
     \<lparr>ServiceReady = False, HmdPresent = False, HmdMounted = False, IsVisible = False,
      DisplayLost = False, ShouldQuit = False\<rparr>"

section \<open>The runtime object and what it calls\<close>

text \<open>
  The members of \<open>OpenXrRuntime\<close> that system.cpp reads or writes. The two-element
  arrays indexed by \<open>xr::StereoView\<close> are pairs (left, right).
\<close>

record runtime =
  m_instanceCreated :: bool
  m_systemCreated :: bool
  m_pvrSession :: pvrSessionHandle
  m_cachedHmdInfo :: pvrHmdInfo
  m_cachedEyeInfo :: "pvrEyeRenderInfo \<times> pvrEyeRenderInfo"
  m_cachedEyeFov :: "XrFovf \<times> XrFovf"
  m_floorHeight :: real
  m_useParallelProjection :: bool
  m_fovLevel :: int
  m_isEyeTrackingAvailable :: bool
  m_eyeTrackingType :: EyeTracking
  has_XR_EXT_eye_gaze_interaction :: bool
  has_XR_EXT_hand_tracking :: bool

text \<open>
  Everything system.cpp calls outside the two files: the PVR entry points, the quaternion
  angle of the SDK's math header, and the two runtime methods \<open>getSetting\<close> and
  \<open>initializeDroolon\<close> that are defined in other files. They are parameters of the model.
  \<open>'w\<close> is the state of the world outside the runtime object (the vendor service, the
  headset, the registry); an entry point that can act on it returns the next world.
  An entry point with an output parameter returns the value it stores there.
  \<open>pvr_createSession\<close> returns the value that \<open>m_pvrSession\<close> holds after the call.
  \<open>pvr_getEyeRenderInfo\<close> writes into a member of the runtime object, so it also takes
  the value found there. \<open>CONFIG_KEY_EYE_HEIGHT\<close> is a string macro of the SDK header.
\<close>

record 'w pvr_api =
  pvr_createSession :: "'w \<Rightarrow> pvrResult \<times> pvrSessionHandle \<times> 'w"
  pvr_destroySession :: "pvrSessionHandle \<Rightarrow> 'w \<Rightarrow> 'w"
  pvr_getHmdStatus :: "pvrSessionHandle \<Rightarrow> 'w \<Rightarrow> pvrResult \<times> pvrHmdStatus \<times> 'w"
  pvr_getHmdInfo :: "pvrSessionHandle \<Rightarrow> 'w \<Rightarrow> pvrResult \<times> pvrHmdInfo \<times> 'w"
  pvr_getEyeRenderInfo ::
    "pvrSessionHandle \<Rightarrow> pvrEyeType \<Rightarrow> pvrEyeRenderInfo \<Rightarrow> 'w
       \<Rightarrow> pvrResult \<times> pvrEyeRenderInfo \<times> 'w"
  pvr_setIntConfig :: "pvrSessionHandle \<Rightarrow> string \<Rightarrow> int \<Rightarrow> 'w \<Rightarrow> pvrResult \<times> 'w"
  pvr_getIntConfig :: "pvrSessionHandle \<Rightarrow> string \<Rightarrow> int \<Rightarrow> 'w \<Rightarrow> int"
  pvr_getFloatConfig :: "pvrSessionHandle \<Rightarrow> string \<Rightarrow> real \<Rightarrow> 'w \<Rightarrow> real"
  pvr_setTrackingOriginType :: "pvrSessionHandle \<Rightarrow> pvrTrackingOrigin \<Rightarrow> 'w \<Rightarrow> pvrResult \<times> 'w"
  Quatf_Angle :: "pvrQuatf \<Rightarrow> pvrQuatf \<Rightarrow> real"
  getSetting :: "string \<Rightarrow> 'w \<Rightarrow> int option"
  initializeDroolon :: "'w \<Rightarrow> bool \<times> 'w"
  CONFIG_KEY_EYE_HEIGHT :: string

text \<open>
  How a block of a function ends: \<open>CHECK_PVRCMD\<close> threw on a result other than
  \<open>pvr_success\<close> (utils.h, \<open>_CheckPVRResult\<close>), the function returned a result code, or
  control goes on to the next statement with a value.
\<close>

datatype 'a flow = Throw pvrResult | Return XrResult | Next 'a

text \<open>What the caller of an entry point sees: an exception or the returned code.\<close>

datatype outcome = Thrown pvrResult | Returned XrResult

text \<open>Sequencing: the second block runs only when the first one goes on.\<close>

definition andThen ::
  "'a flow \<times> runtime \<times> 'w \<Rightarrow> ('a \<Rightarrow> runtime \<Rightarrow> 'w \<Rightarrow> 'b flow \<times> runtime \<times> 'w)
     \<Rightarrow> 'b flow \<times> runtime \<times> 'w" where
  "andThen m f =
     (case m of
        (Throw e, rt, w) \<Rightarrow> (Throw e, rt, w)
      | (Return r, rt, w) \<Rightarrow> (Return r, rt, w)
      | (Next a, rt, w) \<Rightarrow> f a rt w)"

text \<open>utils.h, \<open>CHECK_PVRCMD\<close>, for a command without and with an output value.\<close>

definition CHECK_PVRCMD :: "pvrResult \<times> 'w \<Rightarrow> runtime \<Rightarrow> unit flow \<times> runtime \<times> 'w" where
  "CHECK_PVRCMD cmd rt =
     (case cmd of (pvr, w) \<Rightarrow> (if pvr \<noteq> pvr_success then Throw pvr else Next (), rt, w))"

definition CHECK_PVRCMD_out ::
  "pvrResult \<times> 'a \<times> 'w \<Rightarrow> runtime \<Rightarrow> 'a flow \<times> runtime \<times> 'w" where
  "CHECK_PVRCMD_out cmd rt =
     (case cmd of (pvr, a, w) \<Rightarrow> (if pvr \<noteq> pvr_success then Throw pvr else Next a, rt, w))"

text \<open>\<open>std::optional::value_or\<close>.\<close>

definition value_or :: "'a option \<Rightarrow> 'a \<Rightarrow> 'a" where
  "value_or opt d = (case opt of None \<Rightarrow> d | Some v \<Rightarrow> v)"

section \<open>ensurePvrSession (system.cpp, lines 366 to 381)\<close>

definition ensurePvrSession :: "'w pvr_api \<Rightarrow> runtime \<Rightarrow> 'w \<Rightarrow> bool flow \<times> runtime \<times> 'w" where
  "ensurePvrSession api rt w =
     (if m_pvrSession rt = None then
        (case pvr_createSession api w of
           (result, session, w1) \<Rightarrow>
             let rt1 = rt\<lparr>m_pvrSession := session\<rparr> in
             if result = pvr_rpc_failed then (Next False, rt1, w1)
             else
               andThen (CHECK_PVRCMD (result, w1) rt1) (\<lambda>_ rt2 w2.
               andThen (CHECK_PVRCMD (pvr_setIntConfig api (m_pvrSession rt2) ''view_rotation_fix''
                                        (if m_useParallelProjection rt2 then 1 else 0) w2) rt2)
                 (\<lambda>_ rt3 w3.
               andThen (CHECK_PVRCMD (pvr_setTrackingOriginType api (m_pvrSession rt3)
                                        pvrTrackingOrigin_EyeLevel w3) rt3)
                 (\<lambda>_ rt4 w4. (Next True, rt4, w4)))))
      else (Next True, rt, w))"

section \<open>xrGetSystem (system.cpp, lines 36 to 203)\<close>

record XrSystemGetInfo =
  getInfo_type :: XrStructureType
  formFactor :: XrFormFactor

text \<open>
  Lines 54 to 77: the status of an existing session. The block yields the local
  \<open>status\<close> and the local \<open>isStatusValid\<close>.
\<close>

definition checkExistingSession ::
  "'w pvr_api \<Rightarrow> runtime \<Rightarrow> 'w \<Rightarrow> (pvrHmdStatus \<times> bool) flow \<times> runtime \<times> 'w" where
  "checkExistingSession api rt w =
     (if m_pvrSession rt \<noteq> None then
        andThen (CHECK_PVRCMD_out (pvr_getHmdStatus api (m_pvrSession rt) w) rt)
          (\<lambda>status rt1 w1.
             if ShouldQuit status then
               (Next (status, False), rt1\<lparr>m_pvrSession := None\<rparr>,
                pvr_destroySession api (m_pvrSession rt1) w1)
             else (Next (status, True), rt1, w1))
      else (Next (pvrHmdStatus_zero, False), rt, w))"

text \<open>Lines 85 to 96: the status is queried again unless line 75 marked it valid.\<close>

definition refreshStatus ::
  "'w pvr_api \<Rightarrow> pvrHmdStatus \<Rightarrow> bool \<Rightarrow> runtime \<Rightarrow> 'w \<Rightarrow> pvrHmdStatus flow \<times> runtime \<times> 'w" where
  "refreshStatus api status isStatusValid rt w =
     (if \<not> isStatusValid then CHECK_PVRCMD_out (pvr_getHmdStatus api (m_pvrSession rt) w) rt
      else (Next status, rt, w))"

text \<open>
  Lines 85 to 115: the presence check and the query of the HMD properties; the block
  yields the local \<open>hmdInfo\<close>.
\<close>

definition queryPresentHmd ::
  "'w pvr_api \<Rightarrow> pvrHmdStatus \<Rightarrow> bool \<Rightarrow> runtime \<Rightarrow> 'w \<Rightarrow> pvrHmdInfo flow \<times> runtime \<times> 'w" where
  "queryPresentHmd api status isStatusValid rt w =
     andThen (refreshStatus api status isStatusValid rt w) (\<lambda>status' rt1 w1.
       if \<not> (ServiceReady status' \<and> HmdPresent status') then
         (Return XR_ERROR_FORM_FACTOR_UNAVAILABLE, rt1\<lparr>m_cachedHmdInfo := pvrHmdInfo_zero\<rparr>, w1)
       else CHECK_PVRCMD_out (pvr_getHmdInfo api (m_pvrSession rt1) w1) rt1)"

text \<open>Lines 79 to 115.\<close>

definition ensureAndQuery ::
  "'w pvr_api \<Rightarrow> pvrHmdStatus \<Rightarrow> bool \<Rightarrow> runtime \<Rightarrow> 'w \<Rightarrow> pvrHmdInfo flow \<times> runtime \<times> 'w" where
  "ensureAndQuery api status isStatusValid rt w =
     andThen (ensurePvrSession api rt w) (\<lambda>ensured rt1 w1.
       if \<not> ensured then
         (Return XR_ERROR_FORM_FACTOR_UNAVAILABLE, rt1\<lparr>m_cachedHmdInfo := pvrHmdInfo_zero\<rparr>, w1)
       else queryPresentHmd api status isStatusValid rt1 w1)"

text \<open>Lines 54 to 115.\<close>

definition queryHmd :: "'w pvr_api \<Rightarrow> runtime \<Rightarrow> 'w \<Rightarrow> pvrHmdInfo flow \<times> runtime \<times> 'w" where
  "queryHmd api rt w =
     andThen (checkExistingSession api rt w) (\<lambda>(status, isStatusValid) rt1 w1.
       ensureAndQuery api status isStatusValid rt1 w1)"

text \<open>
  Lines 128 to 149: consent and the choice of the eye tracker. The build has
  \<open>NOASEEVRCLIENT\<close> undefined, so the aSeeVR branch is present.
\<close>

definition selectEyeTracker :: "'w pvr_api \<Rightarrow> runtime \<Rightarrow> 'w \<Rightarrow> runtime \<times> 'w" where
  "selectEyeTracker api rt w =
     (let rt1 = rt\<lparr>m_isEyeTrackingAvailable :=
                     (value_or (getSetting api ''allow_eye_tracking'' w) 0 \<noteq> 0)\<rparr>;
          rt2 = rt1\<lparr>m_eyeTrackingType := EyeTracking_None\<rparr>;
          (rt3, w3) =
            (if has_XR_EXT_eye_gaze_interaction rt2 then
               (if value_or (getSetting api ''debug_eye_tracker'' w) 0 \<noteq> 0 then
                  (rt2\<lparr>m_eyeTrackingType := EyeTracking_Simulated\<rparr>, w)
                else if VendorId (m_cachedHmdInfo rt2) = 0x34A4
                        \<and> ProductId (m_cachedHmdInfo rt2) = 0x0012 then
                  (rt2\<lparr>m_eyeTrackingType := EyeTracking_PVR\<rparr>, w)
                else
                  (case initializeDroolon api w of
                     (True, w') \<Rightarrow> (rt2\<lparr>m_eyeTrackingType := EyeTracking_aSeeVR\<rparr>, w')
                   | (False, w') \<Rightarrow> (rt2, w')))
             else (rt2, w))
      in if m_eyeTrackingType rt3 = EyeTracking_None
         then (rt3\<lparr>m_isEyeTrackingAvailable := False\<rparr>, w3)
         else (rt3, w3))"

text \<open>
  Lines 152 and 153, and again 174 and 175: both eyes are read into \<open>m_cachedEyeInfo\<close>.
  The SDK writes through the pointer before the result is checked.
\<close>

definition cacheEyeRenderInfo :: "'w pvr_api \<Rightarrow> runtime \<Rightarrow> 'w \<Rightarrow> unit flow \<times> runtime \<times> 'w" where
  "cacheEyeRenderInfo api rt w =
     (case pvr_getEyeRenderInfo api (m_pvrSession rt) pvrEye_Left (fst (m_cachedEyeInfo rt)) w of
        (pvrL, infoL, wL) \<Rightarrow>
          andThen (CHECK_PVRCMD (pvrL, wL) (rt\<lparr>m_cachedEyeInfo := (infoL, snd (m_cachedEyeInfo rt))\<rparr>))
            (\<lambda>_ rt1 w1.
               case pvr_getEyeRenderInfo api (m_pvrSession rt1) pvrEye_Right
                      (snd (m_cachedEyeInfo rt1)) w1 of
                 (pvrR, infoR, wR) \<Rightarrow>
                   CHECK_PVRCMD (pvrR, wR)
                     (rt1\<lparr>m_cachedEyeInfo := (fst (m_cachedEyeInfo rt1), infoR)\<rparr>)))"

text \<open>
  Lines 161 to 163: the local \<open>cantingAngle\<close>, half the angle between the two cached eye
  orientations.
\<close>

definition cantingAngle :: "'w pvr_api \<Rightarrow> runtime \<Rightarrow> real" where
  "cantingAngle api rt =
     Quatf_Angle api (Orientation (HmdToEyePose (fst (m_cachedEyeInfo rt))))
                     (Orientation (HmdToEyePose (snd (m_cachedEyeInfo rt)))) / 2"

text \<open>
  The literal \<open>0.0001f\<close> is the single-precision number nearest to one ten-thousandth,
  which is 13743895 / 2^37.
\<close>

definition cantingEpsilon :: real where
  "cantingEpsilon = 13743895 / 2 ^ 37"

text \<open>
  Lines 164 to 166: the value assigned to \<open>m_useParallelProjection\<close>. The operands of
  \<open>&&\<close> are the comparison and the integer that \<open>value_or\<close> yields, whose default is
  the negation of the \<open>steamvr_use_native_fov\<close> configuration value.
\<close>

definition useParallelProjection :: "'w pvr_api \<Rightarrow> runtime \<Rightarrow> 'w \<Rightarrow> bool" where
  "useParallelProjection api rt w =
     (cantingAngle api rt > cantingEpsilon
      \<and> value_or (getSetting api ''force_parallel_projection_state'' w)
           (if pvr_getIntConfig api (m_pvrSession rt) ''steamvr_use_native_fov'' 0 w = 0
            then 1 else 0) \<noteq> 0)"

text \<open>Lines 179 to 184: the field of view of one eye.\<close>

definition eyeFov :: "pvrEyeRenderInfo \<Rightarrow> XrFovf" where
  "eyeFov info =
     \<lparr>angleLeft = - arctan (LeftTan (Fov info)), angleRight = arctan (RightTan (Fov info)),
      angleUp = arctan (UpTan (Fov info)), angleDown = - arctan (DownTan (Fov info))\<rparr>"

text \<open>Lines 161 to 194: the projection mode and what follows from it.\<close>

definition deriveProjection :: "'w pvr_api \<Rightarrow> runtime \<Rightarrow> 'w \<Rightarrow> unit flow \<times> runtime \<times> 'w" where
  "deriveProjection api rt w =
     (let rt1 = rt\<lparr>m_useParallelProjection := useParallelProjection api rt w\<rparr> in
      andThen
        (if m_useParallelProjection rt1 then
           andThen (CHECK_PVRCMD (pvr_setIntConfig api (m_pvrSession rt1) ''view_rotation_fix'' 1 w)
                      rt1)
             (\<lambda>_ rt2 w2. cacheEyeRenderInfo api rt2 w2)
         else (Next (), rt1, w))
        (\<lambda>_ rt3 w3.
           let rt4 = rt3\<lparr>m_fovLevel := pvr_getIntConfig api (m_pvrSession rt3) ''fov_level'' 0 w3\<rparr>;
               rt5 = rt4\<lparr>m_cachedEyeFov :=
                           (eyeFov (fst (m_cachedEyeInfo rt4)), eyeFov (snd (m_cachedEyeInfo rt4)))\<rparr>
           in CHECK_PVRCMD (pvr_setTrackingOriginType api (m_pvrSession rt5)
                              pvrTrackingOrigin_EyeLevel w3) rt5))"

text \<open>Lines 119 to 194: the body of the device-change branch.\<close>

definition deviceChanged ::
  "'w pvr_api \<Rightarrow> pvrHmdInfo \<Rightarrow> runtime \<Rightarrow> 'w \<Rightarrow> unit flow \<times> runtime \<times> 'w" where
  "deviceChanged api hmdInfo rt w =
     (let rt1 = rt\<lparr>m_cachedHmdInfo := hmdInfo\<rparr> in
      andThen (CHECK_PVRCMD (pvr_setIntConfig api (m_pvrSession rt1) ''view_rotation_fix'' 0 w) rt1)
        (\<lambda>_ rt2 w2.
           case selectEyeTracker api rt2 w2 of
             (rt3, w3) \<Rightarrow>
               andThen (cacheEyeRenderInfo api rt3 w3) (\<lambda>_ rt4 w4.
                 deriveProjection api
                   (rt4\<lparr>m_floorHeight :=
                           pvr_getFloatConfig api (m_pvrSession rt4) (CONFIG_KEY_EYE_HEIGHT api) 0 w4\<rparr>)
                   w4)))"

text \<open>Lines 117 and 118: the device changed when the serial numbers differ as text.\<close>

definition detectDeviceChange ::
  "'w pvr_api \<Rightarrow> pvrHmdInfo \<Rightarrow> runtime \<Rightarrow> 'w \<Rightarrow> unit flow \<times> runtime \<times> 'w" where
  "detectDeviceChange api hmdInfo rt w =
     (if SerialNumber (m_cachedHmdInfo rt) \<noteq> SerialNumber hmdInfo
      then deviceChanged api hmdInfo rt w
      else (Next (), rt, w))"

text \<open>
  The whole entry point. It yields what the caller sees, the value behind \<open>systemId\<close>,
  the runtime object and the world.
\<close>

definition xrGetSystem ::
  "'w pvr_api \<Rightarrow> XrInstance \<Rightarrow> XrSystemGetInfo \<Rightarrow> XrSystemId \<Rightarrow> runtime \<Rightarrow> 'w
     \<Rightarrow> outcome \<times> XrSystemId \<times> runtime \<times> 'w" where
  "xrGetSystem api instance getInfo systemId rt w =
     (if getInfo_type getInfo \<noteq> XR_TYPE_SYSTEM_GET_INFO then
        (Returned XR_ERROR_VALIDATION_FAILURE, systemId, rt, w)
      else if \<not> m_instanceCreated rt \<or> instance \<noteq> 1 then
        (Returned XR_ERROR_HANDLE_INVALID, systemId, rt, w)
      else if formFactor getInfo \<noteq> XR_FORM_FACTOR_HEAD_MOUNTED_DISPLAY then
        (Returned XR_ERROR_FORM_FACTOR_UNSUPPORTED, systemId, rt, w)
      else
        (case andThen (queryHmd api rt w) (detectDeviceChange api) of
           (Throw e, rt', w') \<Rightarrow> (Thrown e, systemId, rt', w')
         | (Return r, rt', w') \<Rightarrow> (Returned r, systemId, rt', w')
         | (Next _, rt', w') \<Rightarrow> (Returned XR_SUCCESS, 1, rt'\<lparr>m_systemCreated := True\<rparr>, w')))"

section \<open>xrGetSystemProperties (system.cpp, lines 206 to 287)\<close>

text \<open>
  A structure of the \<open>next\<close> chain, as the two casts read it: its type tag and the
  \<open>XrBool32\<close> that follows the \<open>next\<close> pointer (\<open>supportsHandTracking\<close> or
  \<open>supportsEyeGazeInteraction\<close>). The chain is the list of its structures in order.
\<close>

record XrChainedStruct =
  chained_type :: XrStructureType
  chained_supports :: bool

record XrSystemProperties =
  properties_type :: XrStructureType
  properties_next :: "XrChainedStruct list"
  properties_systemId :: XrSystemId
  vendorId :: int
  systemName :: string
  positionTracking :: bool
  orientationTracking :: bool
  maxLayerCount :: nat
  maxSwapchainImageWidth :: nat
  maxSwapchainImageHeight :: nat

text \<open>Lines 224 to 241: the loops stop at the first structure with the wanted tag.\<close>

fun findInChain :: "XrStructureType \<Rightarrow> XrChainedStruct list \<Rightarrow> nat option" where
  "findInChain t [] = None"
| "findInChain t (x # xs) =
     (if chained_type x = t then Some 0 else map_option Suc (findInChain t xs))"

definition setSupports :: "nat option \<Rightarrow> bool \<Rightarrow> XrChainedStruct list \<Rightarrow> XrChainedStruct list" where
  "setSupports found b chain =
     (case found of
        None \<Rightarrow> chain
      | Some i \<Rightarrow> chain[i := (chain ! i)\<lparr>chained_supports := b\<rparr>])"

text \<open>\<open>pvrMaxLayerCount\<close> is a constant of the SDK header and is a parameter here.\<close>

definition xrGetSystemProperties ::
  "nat \<Rightarrow> runtime \<Rightarrow> XrInstance \<Rightarrow> XrSystemId \<Rightarrow> XrSystemProperties
     \<Rightarrow> XrResult \<times> XrSystemProperties" where
  "xrGetSystemProperties pvrMaxLayerCount rt instance systemId properties =
     (if properties_type properties \<noteq> XR_TYPE_SYSTEM_PROPERTIES then
        (XR_ERROR_VALIDATION_FAILURE, properties)
      else if \<not> m_instanceCreated rt \<or> instance \<noteq> 1 then (XR_ERROR_HANDLE_INVALID, properties)
      else if \<not> m_systemCreated rt \<or> systemId \<noteq> 1 then (XR_ERROR_SYSTEM_INVALID, properties)
      else
        (let handTrackingProperties =
               findInChain XR_TYPE_SYSTEM_HAND_TRACKING_PROPERTIES_EXT (properties_next properties);
             eyeGazeInteractionProperties =
               findInChain XR_TYPE_SYSTEM_EYE_GAZE_INTERACTION_PROPERTIES_EXT
                 (properties_next properties);
             p1 = properties
                    \<lparr>vendorId := VendorId (m_cachedHmdInfo rt),
                     systemName := ProductName (m_cachedHmdInfo rt),
                     properties_systemId := systemId,
                     positionTracking := True,
                     orientationTracking := True,
                     maxLayerCount := pvrMaxLayerCount,
                     maxSwapchainImageWidth := 16384,
                     maxSwapchainImageHeight := 16384\<rparr>;
             p2 = (if has_XR_EXT_hand_tracking rt \<and> handTrackingProperties \<noteq> None
                   then p1\<lparr>properties_next :=
                              setSupports handTrackingProperties True (properties_next p1)\<rparr>
                   else p1);
             p3 = (if has_XR_EXT_eye_gaze_interaction rt \<and> eyeGazeInteractionProperties \<noteq> None
                   then p2\<lparr>properties_next :=
                              setSupports eyeGazeInteractionProperties
                                (m_isEyeTrackingAvailable rt) (properties_next p2)\<rparr>
                   else p2)
         in (XR_SUCCESS, p3)))"

section \<open>xrEnumerateEnvironmentBlendModes (system.cpp, lines 290 to 337)\<close>

text \<open>Line 297: the static table.\<close>

definition blendModes :: "XrEnvironmentBlendMode list" where
  "blendModes = [XR_ENVIRONMENT_BLEND_MODE_OPAQUE]"

text \<open>
  The output array is a pointer: \<open>None\<close> is the null pointer, and \<open>Some a\<close> is the
  caller's memory, where \<open>a i\<close> is the element at index \<open>i\<close>. The capacity and the count
  are \<open>uint32_t\<close>. Lines 328 to 333 copy the table into the array.
\<close>

definition copyBlendModes ::
  "nat \<Rightarrow> (nat \<Rightarrow> XrEnvironmentBlendMode) \<Rightarrow> (nat \<Rightarrow> XrEnvironmentBlendMode)" where
  "copyBlendModes n a = fold (\<lambda>i b. b(i := blendModes ! i)) [0..<n] a"

definition xrEnumerateEnvironmentBlendModes ::
  "runtime \<Rightarrow> XrInstance \<Rightarrow> XrSystemId \<Rightarrow> XrViewConfigurationType \<Rightarrow> 32 word \<Rightarrow> 32 word
     \<Rightarrow> (nat \<Rightarrow> XrEnvironmentBlendMode) option
     \<Rightarrow> XrResult \<times> 32 word \<times> (nat \<Rightarrow> XrEnvironmentBlendMode) option" where
  "xrEnumerateEnvironmentBlendModes rt instance systemId viewConfigurationType
       environmentBlendModeCapacityInput environmentBlendModeCountOutput environmentBlendModes =
     (if \<not> m_instanceCreated rt \<or> instance \<noteq> 1 then
        (XR_ERROR_HANDLE_INVALID, environmentBlendModeCountOutput, environmentBlendModes)
      else if \<not> m_systemCreated rt \<or> systemId \<noteq> 1 then
        (XR_ERROR_SYSTEM_INVALID, environmentBlendModeCountOutput, environmentBlendModes)
      else if viewConfigurationType \<noteq> XR_VIEW_CONFIGURATION_TYPE_PRIMARY_STEREO then
        (XR_ERROR_VIEW_CONFIGURATION_TYPE_UNSUPPORTED, environmentBlendModeCountOutput,
         environmentBlendModes)
      else if environmentBlendModeCapacityInput \<noteq> 0
              \<and> unat environmentBlendModeCapacityInput < length blendModes then
        (XR_ERROR_SIZE_INSUFFICIENT, environmentBlendModeCountOutput, environmentBlendModes)
      else
        (let countOutput = (of_nat (length blendModes) :: 32 word) in
         (XR_SUCCESS, countOutput,
          if environmentBlendModeCapacityInput \<noteq> 0 \<and> environmentBlendModes \<noteq> None
          then map_option (copyBlendModes (unat countOutput)) environmentBlendModes
          else environmentBlendModes)))"

section \<open>GlContextSwitch (utils.h, lines 346 to 382)\<close>

text \<open>
  The class acts on the OpenGL state of the calling thread, which belongs to the host
  application: the device context and the rendering context that are current, and for
  every rendering context the error flags it has recorded. \<open>glGetError\<close> returns one
  recorded flag of the current context and clears it, or \<open>GL_NO_ERROR\<close> when none is
  recorded. The function result of \<open>wglMakeCurrent\<close> is not read by the class; the call is
  taken to make its arguments current.
\<close>

type_synonym HDC = nat
type_synonym HGLRC = nat
type_synonym GLenum = nat

definition GL_NO_ERROR :: GLenum where
  "GL_NO_ERROR = 0"

record gl_thread =
  currentDC :: HDC
  currentRC :: HGLRC
  errorFlags :: "HGLRC \<Rightarrow> GLenum list"

definition wglGetCurrentDC :: "gl_thread \<Rightarrow> HDC" where
  "wglGetCurrentDC t = currentDC t"

definition wglGetCurrentContext :: "gl_thread \<Rightarrow> HGLRC" where
  "wglGetCurrentContext t = currentRC t"

definition wglMakeCurrent :: "HDC \<Rightarrow> HGLRC \<Rightarrow> gl_thread \<Rightarrow> gl_thread" where
  "wglMakeCurrent dc rc t = t\<lparr>currentDC := dc, currentRC := rc\<rparr>"

definition glGetError :: "gl_thread \<Rightarrow> GLenum \<times> gl_thread" where
  "glGetError t =
     (case filter (\<lambda>e. e \<noteq> GL_NO_ERROR) (errorFlags t (currentRC t)) of
        [] \<Rightarrow> (GL_NO_ERROR, t)
      | e # es \<Rightarrow> (e, t\<lparr>errorFlags := (errorFlags t)(currentRC t := es)\<rparr>))"

record GlContext =
  glDC :: HDC
  glRC :: HGLRC
  valid :: bool

record GlContextSwitch =
  m_valid :: bool
  m_glDC :: HDC
  m_glRC :: HGLRC

text \<open>Lines 363 and 364: the loop that resets the error codes.\<close>

function resetErrorCodes :: "gl_thread \<Rightarrow> gl_thread" where
  "resetErrorCodes t =
     (if fst (glGetError t) \<noteq> GL_NO_ERROR then resetErrorCodes (snd (glGetError t))
      else snd (glGetError t))"
  by pat_completeness auto
termination
  by (relation "measure (\<lambda>t. length (filter (\<lambda>e. e \<noteq> GL_NO_ERROR) (errorFlags t (currentRC t))))")
     (auto simp: glGetError_def less_Suc_eq_le split: list.splits)

declare resetErrorCodes.simps [simp del]

text \<open>
  The constructor. \<open>m_glDC\<close> and \<open>m_glRC\<close> have no initialiser, so for an invalid context
  they keep what the storage of the object held, which is the argument \<open>storage\<close>.
\<close>

definition GlContextSwitch_ctor ::
  "GlContext \<Rightarrow> HDC \<times> HGLRC \<Rightarrow> gl_thread \<Rightarrow> GlContextSwitch \<times> gl_thread" where
  "GlContextSwitch_ctor context storage t =
     (if valid context then
        (\<lparr>m_valid = True, m_glDC = wglGetCurrentDC t, m_glRC = wglGetCurrentContext t\<rparr>,
         resetErrorCodes (wglMakeCurrent (glDC context) (glRC context) t))
      else (\<lparr>m_valid = False, m_glDC = fst storage, m_glRC = snd storage\<rparr>, t))"

text \<open>
  The destructor. It yields the error code that \<open>CHECK_MSG\<close> throws with, if it throws.
\<close>

definition GlContextSwitch_dtor :: "GlContextSwitch \<Rightarrow> gl_thread \<Rightarrow> GLenum option \<times> gl_thread" where
  "GlContextSwitch_dtor self t =
     (if m_valid self then
        (case glGetError t of
           (error, t1) \<Rightarrow>
             let t2 = wglMakeCurrent (m_glDC self) (m_glRC self) t1 in
             (if error = GL_NO_ERROR then None else Some error, t2))
      else (None, t))"

text \<open>
  A scope that declares a \<open>GlContextSwitch\<close> and then runs a region, which either
  completes with a value or raises. The destructor runs on both exits. When it throws
  while the region's exception is unwinding the stack, C++ calls \<open>std::terminate\<close>.
\<close>

datatype ('e, 'a) scope_exit =
    Completed 'a
  | RegionRaised 'e
  | OpenGLError GLenum
  | Terminated

definition GlContextSwitch_scope ::
  "GlContext \<Rightarrow> HDC \<times> HGLRC \<Rightarrow> (gl_thread \<Rightarrow> ('e + 'a) \<times> gl_thread) \<Rightarrow> gl_thread
     \<Rightarrow> ('e, 'a) scope_exit \<times> gl_thread" where
  "GlContextSwitch_scope context storage region t =
     (case GlContextSwitch_ctor context storage t of
        (self, t1) \<Rightarrow>
          (case region t1 of
             (r, t2) \<Rightarrow>
               (case GlContextSwitch_dtor self t2 of
                  (thrown, t3) \<Rightarrow>
                    ((case (r, thrown) of
                        (Inr a, None) \<Rightarrow> Completed a
                      | (Inr a, Some error) \<Rightarrow> OpenGLError error
                      | (Inl e, None) \<Rightarrow> RegionRaised e
                      | (Inl e, Some error) \<Rightarrow> Terminated), t3))))"

section \<open>The cached capability snapshot and sequences of calls\<close>

text \<open>
  The members that the device-change branch of \<open>xrGetSystem\<close> derives: identity, eye
  geometry, field of view, projection mode, eye tracking, fov level and floor height.
  The canting angle is a local of the branch and a function of the cached eye geometry.
\<close>

type_synonym snapshot =
  "pvrHmdInfo \<times> (pvrEyeRenderInfo \<times> pvrEyeRenderInfo) \<times> (XrFovf \<times> XrFovf) \<times> bool
     \<times> EyeTracking \<times> bool \<times> int \<times> real"

definition snapshot :: "runtime \<Rightarrow> snapshot" where
  "snapshot rt =
     (m_cachedHmdInfo rt, m_cachedEyeInfo rt, m_cachedEyeFov rt, m_useParallelProjection rt,
      m_eyeTrackingType rt, m_isEyeTrackingAvailable rt, m_fovLevel rt, m_floorHeight rt)"

definition pvrEyeRenderInfo_zero :: pvrEyeRenderInfo where
  "pvrEyeRenderInfo_zero =
     \<lparr>Fov = \<lparr>UpTan = 0, DownTan = 0, LeftTan = 0, RightTan = 0\<rparr>,
      HmdToEyePose = \<lparr>Orientation = \<lparr>qx = 0, qy = 0, qz = 0, qw = 0\<rparr>,
                      Position = \<lparr>vx = 0, vy = 0, vz = 0\<rparr>\<rparr>\<rparr>"

definition XrFovf_zero :: XrFovf where
  "XrFovf_zero = \<lparr>angleLeft = 0, angleRight = 0, angleUp = 0, angleDown = 0\<rparr>"

text \<open>The snapshot in which every member has its empty value.\<close>

definition snapshot_empty :: snapshot where
  "snapshot_empty =
     (pvrHmdInfo_zero, (pvrEyeRenderInfo_zero, pvrEyeRenderInfo_zero), (XrFovf_zero, XrFovf_zero),
      False, EyeTracking_None, False, 0, 0)"

text \<open>Two runtime objects that differ at most in the session handle.\<close>

definition sessionOnly :: "runtime \<Rightarrow> runtime \<Rightarrow> bool" where
  "sessionOnly rt rt' \<longleftrightarrow> rt'\<lparr>m_pvrSession := m_pvrSession rt\<rparr> = rt"

text \<open>
  How a block that may report \<open>XR_ERROR_FORM_FACTOR_UNAVAILABLE\<close> leaves the runtime
  object: when it returns, that is the code and the cached HMD properties are reset; in
  every case nothing else but the session handle differs.
\<close>

definition unavailableOr :: "runtime \<Rightarrow> 'a flow \<Rightarrow> runtime \<Rightarrow> bool" where
  "unavailableOr rt fl rt' =
     (case fl of
        Return r \<Rightarrow> r = XR_ERROR_FORM_FACTOR_UNAVAILABLE
                     \<and> sessionOnly (rt\<lparr>m_cachedHmdInfo := pvrHmdInfo_zero\<rparr>) rt'
      | _ \<Rightarrow> sessionOnly rt rt')"

text \<open>The three checks at the head of \<open>xrGetSystem\<close> (lines 37 to 52) all pass.\<close>

definition passesChecks :: "runtime \<Rightarrow> XrInstance \<Rightarrow> XrSystemGetInfo \<Rightarrow> bool" where
  "passesChecks rt instance getInfo \<longleftrightarrow>
     getInfo_type getInfo = XR_TYPE_SYSTEM_GET_INFO \<and> m_instanceCreated rt \<and> instance = 1
     \<and> formFactor getInfo = XR_FORM_FACTOR_HEAD_MOUNTED_DISPLAY"

text \<open>
  The HMD properties that a call reads at line 104, when it gets that far.
\<close>

definition reportedHmdInfo :: "'w pvr_api \<Rightarrow> runtime \<Rightarrow> 'w \<Rightarrow> pvrHmdInfo option" where
  "reportedHmdInfo api rt w =
     (case queryHmd api rt w of (Next hmdInfo, _, _) \<Rightarrow> Some hmdInfo | _ \<Rightarrow> None)"

text \<open>
  A sequence of calls by the application. Each call has its arguments and the world it
  finds; the runtime object passes from one call to the next. The run lists, for every
  call, the runtime object before it, the world it found and what it yielded.
\<close>

type_synonym 'w getSystem_call = "XrInstance \<times> XrSystemGetInfo \<times> XrSystemId \<times> 'w"

fun runGetSystem ::
  "'w pvr_api \<Rightarrow> runtime \<Rightarrow> 'w getSystem_call list
     \<Rightarrow> (runtime \<times> 'w \<times> outcome \<times> XrSystemId \<times> runtime \<times> 'w) list" where
  "runGetSystem api rt [] = []"
| "runGetSystem api rt ((instance, getInfo, systemId, w) # calls) =
     (case xrGetSystem api instance getInfo systemId rt w of
        (res, sid, rt', w') \<Rightarrow> (rt, w, res, sid, rt', w') # runGetSystem api rt' calls)"

text \<open>
  Every call of the sequence succeeds and reads a serial number equal to the cached one.
\<close>

fun successfulWithoutDeviceChange ::
  "'w pvr_api \<Rightarrow> runtime \<Rightarrow> 'w getSystem_call list \<Rightarrow> bool" where
  "successfulWithoutDeviceChange api rt [] = True"
| "successfulWithoutDeviceChange api rt ((instance, getInfo, systemId, w) # calls) =
     (case xrGetSystem api instance getInfo systemId rt w of
        (res, sid, rt', w') \<Rightarrow>
          res = Returned XR_SUCCESS
          \<and> map_option SerialNumber (reportedHmdInfo api rt w)
              = Some (SerialNumber (m_cachedHmdInfo rt))
          \<and> successfulWithoutDeviceChange api rt' calls)"

section \<open>A test bench\<close>

text \<open>
  A small concrete world on which the model runs on concrete inputs. It records the calls
  it receives. Session creation yields \<open>bench_createResult\<close> and, on success, the handle
  \<open>bench_newSession\<close>; the session \<open>bench_quitting\<close> reports the should-quit flag; the eye
  geometry depends on the last value set for \<open>view_rotation_fix\<close>. The bench takes the
  angle between two orientations from their \<open>qy\<close> members.
\<close>

datatype pvr_call =
    Call_createSession
  | Call_destroySession pvrSessionHandle
  | Call_getHmdStatus pvrSessionHandle
  | Call_getHmdInfo pvrSessionHandle
  | Call_getEyeRenderInfo pvrSessionHandle pvrEyeType
  | Call_setIntConfig pvrSessionHandle string int
  | Call_setTrackingOriginType pvrSessionHandle pvrTrackingOrigin
  | Call_initializeDroolon

record bench =
  bench_createResult :: pvrResult
  bench_newSession :: pvrSessionHandle
  bench_quitting :: pvrSessionHandle
  bench_status :: pvrHmdStatus
  bench_hmdInfo :: pvrHmdInfo
  bench_eyeCanted :: "pvrEyeRenderInfo \<times> pvrEyeRenderInfo"
  bench_eyeParallel :: "pvrEyeRenderInfo \<times> pvrEyeRenderInfo"
  bench_intConfig :: "(string \<times> int) list"
  bench_settings :: "(string \<times> int) list"
  bench_droolon :: bool
  bench_calls :: "pvr_call list"

definition bench_log :: "pvr_call \<Rightarrow> bench \<Rightarrow> bench" where
  "bench_log c b = b\<lparr>bench_calls := bench_calls b @ [c]\<rparr>"

definition bench_eye :: "bench \<Rightarrow> pvrEyeType \<Rightarrow> pvrEyeRenderInfo" where
  "bench_eye b eye =
     (let both = (if map_of (bench_intConfig b) ''view_rotation_fix'' = Some 1
                  then bench_eyeParallel b else bench_eyeCanted b)
      in case eye of pvrEye_Left \<Rightarrow> fst both | pvrEye_Right \<Rightarrow> snd both)"

definition bench_api :: "bench pvr_api" where
  "bench_api =
     \<lparr>pvr_createSession = (\<lambda>b.
        (bench_createResult b,
         (if bench_createResult b = pvr_success then bench_newSession b else None),
         bench_log Call_createSession b)),
      pvr_destroySession = (\<lambda>s b. bench_log (Call_destroySession s) b),
      pvr_getHmdStatus = (\<lambda>s b.
        (pvr_success,
         (if s = bench_quitting b then (bench_status b)\<lparr>ShouldQuit := True\<rparr> else bench_status b),
         bench_log (Call_getHmdStatus s) b)),
      pvr_getHmdInfo = (\<lambda>s b. (pvr_success, bench_hmdInfo b, bench_log (Call_getHmdInfo s) b)),
      pvr_getEyeRenderInfo = (\<lambda>s eye old b.
        (pvr_success, bench_eye b eye, bench_log (Call_getEyeRenderInfo s eye) b)),
      pvr_setIntConfig = (\<lambda>s k v b.
        (pvr_success, bench_log (Call_setIntConfig s k v) (b\<lparr>bench_intConfig := (k, v) # bench_intConfig b\<rparr>))),
      pvr_getIntConfig = (\<lambda>s k d b. value_or (map_of (bench_intConfig b) k) d),
      pvr_getFloatConfig = (\<lambda>s k d b. d),
      pvr_setTrackingOriginType = (\<lambda>s origin b.
        (pvr_success, bench_log (Call_setTrackingOriginType s origin) b)),
      Quatf_Angle = (\<lambda>a b. \<bar>qy a - qy b\<bar>),
      getSetting = (\<lambda>k b. map_of (bench_settings b) k),
      initializeDroolon = (\<lambda>b. (bench_droolon b, bench_log Call_initializeDroolon b)),
      CONFIG_KEY_EYE_HEIGHT = ''eye_height''\<rparr>"

text \<open>An eye whose orientation has the given \<open>qy\<close> and whose four tangents are equal.\<close>

definition bench_eyeInfo :: "real \<Rightarrow> real \<Rightarrow> pvrEyeRenderInfo" where
  "bench_eyeInfo y tangent =
     \<lparr>Fov = \<lparr>UpTan = tangent, DownTan = tangent, LeftTan = tangent, RightTan = tangent\<rparr>,
      HmdToEyePose = \<lparr>Orientation = \<lparr>qx = 0, qy = y, qz = 0, qw = 1\<rparr>,
                      Position = \<lparr>vx = 0, vy = 0, vz = 0\<rparr>\<rparr>\<rparr>"

definition bench_ready :: pvrHmdStatus where
  "bench_ready = pvrHmdStatus_zero\<lparr>ServiceReady := True, HmdPresent := True\<rparr>"

definition bench_headset :: "string \<Rightarrow> pvrHmdInfo" where
  "bench_headset serial =
     pvrHmdInfo_zero\<lparr>VendorId := 0x34A4, ProductId := 0x0101, ProductName := ''Pimax 8KX'',
                      SerialNumber := serial\<rparr>"

text \<open>
  A world with the service running and a headset of serial number \<open>A\<close> whose eyes are
  canted by the given angle; the geometry under parallel projection has other tangents.
\<close>

definition bench_world :: "real \<Rightarrow> (string \<times> int) list \<Rightarrow> bench" where
  "bench_world canting settings =
     \<lparr>bench_createResult = pvr_success, bench_newSession = Some 2, bench_quitting = Some 1,
      bench_status = bench_ready, bench_hmdInfo = bench_headset ''A'',
      bench_eyeCanted = (bench_eyeInfo (- canting) 1, bench_eyeInfo canting 1),
      bench_eyeParallel = (bench_eyeInfo (- canting) 2, bench_eyeInfo canting 2),
      bench_intConfig = [], bench_settings = settings, bench_droolon = False,
      bench_calls = []\<rparr>"

text \<open>
  The same world after the vendor software took the headset over and changed its
  geometry: session 1 is told to quit, and the tangents under parallel projection are
  no longer those that the runtime cached.
\<close>

definition bench_world_taken_over :: bench where
  "bench_world_taken_over =
     (bench_world (1 / 100) [])
       \<lparr>bench_eyeParallel := (bench_eyeInfo (- (1 / 100)) 3, bench_eyeInfo (1 / 100) 3)\<rparr>"

text \<open>The same world with the vendor service not running.\<close>

definition bench_world_no_service :: bench where
  "bench_world_no_service = (bench_world (1 / 100) [])\<lparr>bench_createResult := pvr_rpc_failed\<rparr>"

text \<open>A world in which no session is told to quit.\<close>

definition bench_world_steady :: bench where
  "bench_world_steady = (bench_world (1 / 100) [])\<lparr>bench_quitting := None\<rparr>"

text \<open>The runtime object after instance creation, before any system query.\<close>

definition bench_runtime :: runtime where
  "bench_runtime =
     \<lparr>m_instanceCreated = True, m_systemCreated = False, m_pvrSession = None,
      m_cachedHmdInfo = pvrHmdInfo_zero,
      m_cachedEyeInfo = (pvrEyeRenderInfo_zero, pvrEyeRenderInfo_zero),
      m_cachedEyeFov = (XrFovf_zero, XrFovf_zero), m_floorHeight = 0,
      m_useParallelProjection = False, m_fovLevel = 0, m_isEyeTrackingAvailable = False,
      m_eyeTrackingType = EyeTracking_None, has_XR_EXT_eye_gaze_interaction = False,
      has_XR_EXT_hand_tracking = False\<rparr>"

text \<open>
  The runtime object of an application that already saw the headset \<open>A\<close> through
  session 1, with the geometry cached then.
\<close>

definition bench_runtime_seen :: runtime where
  "bench_runtime_seen =
     bench_runtime
       \<lparr>m_systemCreated := True, m_pvrSession := Some 1,
        m_cachedHmdInfo := bench_headset ''A'',
        m_cachedEyeInfo := (bench_eyeInfo (- (1 / 100)) 2, bench_eyeInfo (1 / 100) 2),
        m_cachedEyeFov := (eyeFov (bench_eyeInfo (- (1 / 100)) 2), eyeFov (bench_eyeInfo (1 / 100) 2)),
        m_useParallelProjection := True\<rparr>"

definition bench_getInfo :: XrSystemGetInfo where
  "bench_getInfo =
     \<lparr>getInfo_type = XR_TYPE_SYSTEM_GET_INFO, formFactor = XR_FORM_FACTOR_HEAD_MOUNTED_DISPLAY\<rparr>"

definition bench_properties :: "XrStructureType \<Rightarrow> XrSystemProperties" where
  "bench_properties t =
     \<lparr>properties_type = t, properties_next = [], properties_systemId = 0, vendorId = 0,
      systemName = [], positionTracking = False, orientationTracking = False, maxLayerCount = 0,
      maxSwapchainImageWidth = 0, maxSwapchainImageHeight = 0\<rparr>"

text \<open>A thread on which context 7 of device 3 is current, with the given error flags.\<close>

definition bench_thread :: "(HGLRC \<Rightarrow> GLenum list) \<Rightarrow> gl_thread" where
  "bench_thread flags = \<lparr>currentDC = 3, currentRC = 7, errorFlags = flags\<rparr>"

definition bench_context :: "bool \<Rightarrow> GlContext" where
  "bench_context v = \<lparr>glDC = 4, glRC = 9, valid = v\<rparr>"

text \<open>A region that completes after the current context recorded the given flags.\<close>

definition bench_region :: "GLenum list \<Rightarrow> gl_thread \<Rightarrow> (unit + unit) \<times> gl_thread" where
  "bench_region flags t =
     (Inr (), t\<lparr>errorFlags := (errorFlags t)(currentRC t := errorFlags t (currentRC t) @ flags)\<rparr>)"

section \<open>Texture formats: the round trip\<close>

text \<open>
  Claim C8. Every DXGI format that \<open>dxgiToPvrTextureFormat\<close> does not send to
  \<open>PVR_FORMAT_UNKNOWN\<close> comes back unchanged through \<open>pvrToDxgiTextureFormat\<close>, and the
  round trip keeps the sRGB classification.
\<close>

theorem dxgi_pvr_round_trip:
  "dxgiToPvrTextureFormat f \<noteq> PVR_FORMAT_UNKNOWN \<Longrightarrow>
     pvrToDxgiTextureFormat (dxgiToPvrTextureFormat f) = f
     \<and> (isSRGBFormat (pvrToDxgiTextureFormat (dxgiToPvrTextureFormat f)) \<longleftrightarrow> isSRGBFormat f)"
  by (simp add: dxgiToPvrTextureFormat_def pvrToDxgiTextureFormat_def split: if_splits)

theorem dxgi_pvr_round_trip_witness:
  "dxgiToPvrTextureFormat DXGI_FORMAT_B8G8R8A8_UNORM_SRGB \<noteq> PVR_FORMAT_UNKNOWN
   \<and> pvrToDxgiTextureFormat (dxgiToPvrTextureFormat DXGI_FORMAT_B8G8R8A8_UNORM_SRGB)
       = DXGI_FORMAT_B8G8R8A8_UNORM_SRGB
   \<and> isSRGBFormat (pvrToDxgiTextureFormat (dxgiToPvrTextureFormat DXGI_FORMAT_B8G8R8A8_UNORM_SRGB))"
proof -
  have h: "dxgiToPvrTextureFormat DXGI_FORMAT_B8G8R8A8_UNORM_SRGB \<noteq> PVR_FORMAT_UNKNOWN"
    by (simp add: dxgiToPvrTextureFormat_def)
  show ?thesis
    using h dxgi_pvr_round_trip [OF h] by (simp add: isSRGBFormat_def)
qed

section \<open>Environment blend modes\<close>

lemmas capacity_simps = unat_eq_0 unat_gt_0

lemma copyBlendModes_one: "copyBlendModes (Suc 0) a = a(0 := XR_ENVIRONMENT_BLEND_MODE_OPAQUE)"
  by (simp add: copyBlendModes_def blendModes_def)

lemma enumerate_passed:
  "m_instanceCreated rt \<Longrightarrow> m_systemCreated rt \<Longrightarrow>
   xrEnumerateEnvironmentBlendModes rt 1 1 XR_VIEW_CONFIGURATION_TYPE_PRIMARY_STEREO cap cnt arr
     = (XR_SUCCESS, 1,
        if cap \<noteq> 0 then map_option (\<lambda>a. a(0 := XR_ENVIRONMENT_BLEND_MODE_OPAQUE)) arr else arr)"
  by (cases arr)
     (auto simp add: xrEnumerateEnvironmentBlendModes_def blendModes_def capacity_simps Let_def
        copyBlendModes_one)

text \<open>
  Claim C10. No call yields \<open>XR_ERROR_SIZE_INSUFFICIENT\<close>: the table has one entry and
  no 32-bit capacity is both nonzero and below one. A call that passes the instance,
  system and view-configuration checks yields \<open>XR_SUCCESS\<close>.
\<close>

theorem enumerate_never_size_insufficient:
  "fst (xrEnumerateEnvironmentBlendModes rt instance systemId viewConfigurationType cap cnt arr)
     \<noteq> XR_ERROR_SIZE_INSUFFICIENT
   \<and> \<not> (cap \<noteq> 0 \<and> unat cap < length blendModes)
   \<and> (m_instanceCreated rt \<and> instance = 1 \<and> m_systemCreated rt \<and> systemId = 1
        \<and> viewConfigurationType = XR_VIEW_CONFIGURATION_TYPE_PRIMARY_STEREO
      \<longrightarrow> fst (xrEnumerateEnvironmentBlendModes rt instance systemId viewConfigurationType
                 cap cnt arr) = XR_SUCCESS)"
  by (auto simp add: xrEnumerateEnvironmentBlendModes_def blendModes_def capacity_simps Let_def)

theorem enumerate_never_size_insufficient_witness:
  "m_instanceCreated bench_runtime_seen \<and> m_systemCreated bench_runtime_seen
   \<and> fst (xrEnumerateEnvironmentBlendModes bench_runtime_seen 1 1
            XR_VIEW_CONFIGURATION_TYPE_PRIMARY_STEREO 5 0 None) = XR_SUCCESS"
proof -
  have h: "m_instanceCreated bench_runtime_seen \<and> (1 :: XrInstance) = 1
           \<and> m_systemCreated bench_runtime_seen \<and> (1 :: XrSystemId) = 1
           \<and> XR_VIEW_CONFIGURATION_TYPE_PRIMARY_STEREO = XR_VIEW_CONFIGURATION_TYPE_PRIMARY_STEREO"
    by (simp add: bench_runtime_seen_def bench_runtime_def)
  from enumerate_never_size_insufficient
         [of bench_runtime_seen 1 1 XR_VIEW_CONFIGURATION_TYPE_PRIMARY_STEREO 5 0 None] h
  show ?thesis by blast
qed

section \<open>The blocks of xrGetSystem\<close>

lemma andThen_simps:
  "andThen (Throw e, rt, w) f = (Throw e, rt, w)"
  "andThen (Return r, rt, w) f = (Return r, rt, w)"
  "andThen (Next a, rt, w) f = f a rt w"
  by (simp_all add: andThen_def)

lemma sessionOnly_refl: "sessionOnly rt rt"
  by (simp add: sessionOnly_def)

lemma sessionOnly_trans: "sessionOnly a b \<Longrightarrow> sessionOnly b c \<Longrightarrow> sessionOnly a c"
  unfolding sessionOnly_def by (cases a, cases b, cases c) auto

lemma sessionOnly_cleared:
  "sessionOnly a b \<Longrightarrow> sessionOnly (a\<lparr>m_cachedHmdInfo := h\<rparr>) (b\<lparr>m_cachedHmdInfo := h\<rparr>)"
  unfolding sessionOnly_def by (cases a, cases b) auto

lemma sessionOnly_fields:
  assumes "sessionOnly a b"
  shows "snapshot b = snapshot a" and "m_cachedHmdInfo b = m_cachedHmdInfo a"
    and "m_cachedEyeInfo b = m_cachedEyeInfo a"
  using assms unfolding sessionOnly_def snapshot_def by (cases a, cases b, auto)+

lemma unavailableOr_trans:
  "sessionOnly a b \<Longrightarrow> unavailableOr b fl c \<Longrightarrow> unavailableOr a fl c"
  by (cases fl) (auto simp: unavailableOr_def intro: sessionOnly_trans sessionOnly_cleared)

lemma ensurePvrSession_frame:
  assumes "ensurePvrSession api rt w = (fl, rt', w')"
  shows "sessionOnly rt rt' \<and> (\<forall>r. fl \<noteq> Return r)"
proof (cases "m_pvrSession rt = None")
  case False
  with assms show ?thesis by (auto simp: ensurePvrSession_def sessionOnly_def)
next
  case True
  obtain result session w1 where c: "pvr_createSession api w = (result, session, w1)"
    by (cases "pvr_createSession api w")
  obtain r2 w2 where s2: "pvr_setIntConfig api session ''view_rotation_fix''
       (if m_useParallelProjection rt then 1 else 0) w1 = (r2, w2)"
    by (cases "pvr_setIntConfig api session ''view_rotation_fix''
       (if m_useParallelProjection rt then 1 else 0) w1")
  obtain r3 w3 where s3:
    "pvr_setTrackingOriginType api session pvrTrackingOrigin_EyeLevel w2 = (r3, w3)"
    by (cases "pvr_setTrackingOriginType api session pvrTrackingOrigin_EyeLevel w2")
  from assms True c s2 s3 show ?thesis
    by (auto simp: ensurePvrSession_def Let_def andThen_simps CHECK_PVRCMD_def sessionOnly_def
             split: if_splits)
qed

lemma checkExistingSession_frame:
  assumes "checkExistingSession api rt w = (fl, rt', w')"
  shows "sessionOnly rt rt' \<and> (\<forall>r. fl \<noteq> Return r)"
proof -
  obtain r st w1 where c: "pvr_getHmdStatus api (m_pvrSession rt) w = (r, st, w1)"
    by (cases "pvr_getHmdStatus api (m_pvrSession rt) w")
  from assms c show ?thesis
    by (auto simp: checkExistingSession_def andThen_simps CHECK_PVRCMD_out_def sessionOnly_def
             split: if_splits)
qed

lemma refreshStatus_frame:
  assumes "refreshStatus api st v rt w = (fl, rt', w')"
  shows "rt' = rt \<and> (\<forall>r. fl \<noteq> Return r)"
proof -
  obtain r st1 w1 where c: "pvr_getHmdStatus api (m_pvrSession rt) w = (r, st1, w1)"
    by (cases "pvr_getHmdStatus api (m_pvrSession rt) w")
  from assms c show ?thesis
    by (auto simp: refreshStatus_def CHECK_PVRCMD_out_def split: if_splits)
qed

lemma getHmdInfo_frame:
  assumes "CHECK_PVRCMD_out (pvr_getHmdInfo api s w) rt = (fl, rt', w')"
  shows "rt' = rt \<and> (\<forall>r. fl \<noteq> Return r)"
proof -
  obtain r h w1 where c: "pvr_getHmdInfo api s w = (r, h, w1)"
    by (cases "pvr_getHmdInfo api s w")
  from assms c show ?thesis
    by (auto simp: CHECK_PVRCMD_out_def split: if_splits)
qed

lemma queryPresentHmd_frame:
  assumes "queryPresentHmd api st v rt w = (fl, rt', w')"
  shows "unavailableOr rt fl rt'"
proof -
  obtain fl1 rt1 w1 where a: "refreshStatus api st v rt w = (fl1, rt1, w1)"
    by (cases "refreshStatus api st v rt w")
  from refreshStatus_frame [OF a] have rt1: "rt1 = rt" and nr: "\<forall>r. fl1 \<noteq> Return r"
    by simp_all
  show ?thesis
  proof (cases fl1)
    case (Throw e)
    with assms a rt1 show ?thesis
      by (auto simp: queryPresentHmd_def andThen_simps unavailableOr_def sessionOnly_refl)
  next
    case (Return r)
    with nr show ?thesis by simp
  next
    case (Next st')
    show ?thesis
    proof (cases "ServiceReady st' \<and> HmdPresent st'")
      case False
      with assms a rt1 Next show ?thesis
        by (auto simp: queryPresentHmd_def andThen_simps unavailableOr_def sessionOnly_refl)
    next
      case True
      with assms a rt1 Next
      have "CHECK_PVRCMD_out (pvr_getHmdInfo api (m_pvrSession rt) w1) rt = (fl, rt', w')"
        by (simp add: queryPresentHmd_def andThen_simps)
      from getHmdInfo_frame [OF this] show ?thesis
        by (cases fl) (auto simp: unavailableOr_def sessionOnly_refl)
    qed
  qed
qed

lemma ensureAndQuery_frame:
  assumes "ensureAndQuery api st v rt w = (fl, rt', w')"
  shows "unavailableOr rt fl rt'"
proof -
  obtain fl1 rt1 w1 where a: "ensurePvrSession api rt w = (fl1, rt1, w1)"
    by (cases "ensurePvrSession api rt w")
  from ensurePvrSession_frame [OF a]
  have so: "sessionOnly rt rt1" and nr: "\<forall>r. fl1 \<noteq> Return r"
    by simp_all
  show ?thesis
  proof (cases fl1)
    case (Throw e)
    with assms a so show ?thesis
      by (auto simp: ensureAndQuery_def andThen_simps unavailableOr_def)
  next
    case (Return r)
    with nr show ?thesis by simp
  next
    case (Next ensured)
    show ?thesis
    proof (cases ensured)
      case False
      with assms a Next so show ?thesis
        by (auto simp: ensureAndQuery_def andThen_simps unavailableOr_def sessionOnly_cleared)
    next
      case True
      with assms a Next have "queryPresentHmd api st v rt1 w1 = (fl, rt', w')"
        by (simp add: ensureAndQuery_def andThen_simps)
      from unavailableOr_trans [OF so queryPresentHmd_frame [OF this]] show ?thesis .
    qed
  qed
qed

lemma queryHmd_frame:
  assumes "queryHmd api rt w = (fl, rt', w')"
  shows "unavailableOr rt fl rt'"
proof -
  obtain fl1 rt1 w1 where a: "checkExistingSession api rt w = (fl1, rt1, w1)"
    by (cases "checkExistingSession api rt w")
  from checkExistingSession_frame [OF a]
  have so: "sessionOnly rt rt1" and nr: "\<forall>r. fl1 \<noteq> Return r"
    by simp_all
  show ?thesis
  proof (cases fl1)
    case (Throw e)
    with assms a so show ?thesis
      by (auto simp: queryHmd_def andThen_simps unavailableOr_def)
  next
    case (Return r)
    with nr show ?thesis by simp
  next
    case (Next sv)
    obtain st v where sv: "sv = (st, v)" by (cases sv)
    with assms a Next have "ensureAndQuery api st v rt1 w1 = (fl, rt', w')"
      by (simp add: queryHmd_def andThen_simps)
    from unavailableOr_trans [OF so ensureAndQuery_frame [OF this]] show ?thesis .
  qed
qed

subsection \<open>The device-change branch\<close>

lemma cacheEyeRenderInfo_frame:
  assumes "cacheEyeRenderInfo api rt w = (fl, rt', w')"
  shows "rt'\<lparr>m_cachedEyeInfo := m_cachedEyeInfo rt\<rparr> = rt \<and> (\<forall>r. fl \<noteq> Return r)"
proof -
  obtain pvrL infoL wL where l:
    "pvr_getEyeRenderInfo api (m_pvrSession rt) pvrEye_Left (fst (m_cachedEyeInfo rt)) w
       = (pvrL, infoL, wL)"
    by (cases "pvr_getEyeRenderInfo api (m_pvrSession rt) pvrEye_Left (fst (m_cachedEyeInfo rt)) w")
  obtain pvrR infoR wR where r:
    "pvr_getEyeRenderInfo api (m_pvrSession rt) pvrEye_Right (snd (m_cachedEyeInfo rt)) wL
       = (pvrR, infoR, wR)"
    by (cases "pvr_getEyeRenderInfo api (m_pvrSession rt) pvrEye_Right
                 (snd (m_cachedEyeInfo rt)) wL")
  from assms l r show ?thesis
    by (auto simp: cacheEyeRenderInfo_def CHECK_PVRCMD_def andThen_simps split: if_splits)
qed

lemma cacheEyeRenderInfo_fields:
  assumes "cacheEyeRenderInfo api rt w = (fl, rt', w')"
  shows "m_useParallelProjection rt' = m_useParallelProjection rt"
    and "m_cachedHmdInfo rt' = m_cachedHmdInfo rt"
    and "m_pvrSession rt' = m_pvrSession rt"
proof -
  from cacheEyeRenderInfo_frame [OF assms]
  have e: "rt'\<lparr>m_cachedEyeInfo := m_cachedEyeInfo rt\<rparr> = rt"
    by simp
  from arg_cong [OF e, of m_useParallelProjection]
  show "m_useParallelProjection rt' = m_useParallelProjection rt" by simp
  from arg_cong [OF e, of m_cachedHmdInfo]
  show "m_cachedHmdInfo rt' = m_cachedHmdInfo rt" by simp
  from arg_cong [OF e, of m_pvrSession]
  show "m_pvrSession rt' = m_pvrSession rt" by simp
qed

lemma deriveProjection_fields:
  assumes "deriveProjection api rt w = (fl, rt', w')"
  shows "m_useParallelProjection rt' = useParallelProjection api rt w
         \<and> m_cachedHmdInfo rt' = m_cachedHmdInfo rt \<and> (\<forall>r. fl \<noteq> Return r)"
proof (cases "useParallelProjection api rt w")
  case False
  obtain r3 w3 where t:
    "pvr_setTrackingOriginType api (m_pvrSession rt) pvrTrackingOrigin_EyeLevel w = (r3, w3)"
    by (cases "pvr_setTrackingOriginType api (m_pvrSession rt) pvrTrackingOrigin_EyeLevel w")
  from assms False t show ?thesis
    by (auto simp: deriveProjection_def Let_def andThen_simps CHECK_PVRCMD_def split: if_splits)
next
  case True
  let ?rt1 = "rt\<lparr>m_useParallelProjection := True\<rparr>"
  obtain r1 w1 where s:
    "pvr_setIntConfig api (m_pvrSession rt) ''view_rotation_fix'' 1 w = (r1, w1)"
    by (cases "pvr_setIntConfig api (m_pvrSession rt) ''view_rotation_fix'' 1 w")
  show ?thesis
  proof (cases "r1 = pvr_success")
    case False
    with assms True s show ?thesis
      by (auto simp: deriveProjection_def Let_def andThen_simps CHECK_PVRCMD_def)
  next
    case ok: True
    obtain fl2 rt2 w2 where c: "cacheEyeRenderInfo api ?rt1 w1 = (fl2, rt2, w2)"
      by (cases "cacheEyeRenderInfo api ?rt1 w1")
    note f = cacheEyeRenderInfo_fields [OF c] cacheEyeRenderInfo_frame [OF c]
    obtain r3 w3 where t:
      "pvr_setTrackingOriginType api (m_pvrSession rt) pvrTrackingOrigin_EyeLevel w2 = (r3, w3)"
      by (cases "pvr_setTrackingOriginType api (m_pvrSession rt) pvrTrackingOrigin_EyeLevel w2")
    from assms True s ok c t f show ?thesis
      by (cases fl2)
         (auto simp: deriveProjection_def Let_def andThen_simps CHECK_PVRCMD_def split: if_splits)
  qed
qed

lemma deriveProjection_decides:
  "m_useParallelProjection (fst (snd (deriveProjection api rt w))) = useParallelProjection api rt w"
  using deriveProjection_fields [of api rt w "fst (deriveProjection api rt w)"
          "fst (snd (deriveProjection api rt w))" "snd (snd (deriveProjection api rt w))"]
  by simp

lemma selectEyeTracker_fields:
  assumes "selectEyeTracker api rt w = (rt', w')"
  shows "m_cachedHmdInfo rt' = m_cachedHmdInfo rt"
proof -
  obtain d wd where "initializeDroolon api w = (d, wd)" by (cases "initializeDroolon api w")
  with assms show ?thesis
    by (auto simp: selectEyeTracker_def Let_def split: if_splits bool.splits)
qed

lemma deviceChanged_fields:
  assumes "deviceChanged api hmdInfo rt w = (fl, rt', w')"
  shows "m_cachedHmdInfo rt' = hmdInfo \<and> (\<forall>r. fl \<noteq> Return r)"
proof -
  let ?rt1 = "rt\<lparr>m_cachedHmdInfo := hmdInfo\<rparr>"
  obtain r1 w1 where s:
    "pvr_setIntConfig api (m_pvrSession rt) ''view_rotation_fix'' 0 w = (r1, w1)"
    by (cases "pvr_setIntConfig api (m_pvrSession rt) ''view_rotation_fix'' 0 w")
  show ?thesis
  proof (cases "r1 = pvr_success")
    case False
    with assms s show ?thesis
      by (auto simp: deviceChanged_def Let_def andThen_simps CHECK_PVRCMD_def)
  next
    case ok: True
    obtain rt3 w3 where e: "selectEyeTracker api ?rt1 w1 = (rt3, w3)"
      by (cases "selectEyeTracker api ?rt1 w1")
    from selectEyeTracker_fields [OF e] have h3: "m_cachedHmdInfo rt3 = hmdInfo" by simp
    obtain fl4 rt4 w4 where c: "cacheEyeRenderInfo api rt3 w3 = (fl4, rt4, w4)"
      by (cases "cacheEyeRenderInfo api rt3 w3")
    note f = cacheEyeRenderInfo_fields [OF c] cacheEyeRenderInfo_frame [OF c]
    show ?thesis
    proof (cases fl4)
      case (Next u)
      with assms s ok e c have "deriveProjection api
         (rt4\<lparr>m_floorHeight :=
                 pvr_getFloatConfig api (m_pvrSession rt4) (CONFIG_KEY_EYE_HEIGHT api) 0 w4\<rparr>) w4
         = (fl, rt', w')"
        by (simp add: deviceChanged_def Let_def andThen_simps CHECK_PVRCMD_def)
      from deriveProjection_fields [OF this] f h3 show ?thesis by simp
    next
      case (Throw x)
      with assms s ok e c f h3 show ?thesis
        by (auto simp: deviceChanged_def Let_def andThen_simps CHECK_PVRCMD_def)
    next
      case (Return x)
      with f show ?thesis by simp
    qed
  qed
qed

lemma detectDeviceChange_frame:
  assumes "detectDeviceChange api h rt w = (fl, rt', w')"
  shows "\<forall>r. fl \<noteq> Return r"
    and "SerialNumber (m_cachedHmdInfo rt) = SerialNumber h \<Longrightarrow> fl = Next () \<and> rt' = rt \<and> w' = w"
    and "SerialNumber (m_cachedHmdInfo rt) \<noteq> SerialNumber h \<Longrightarrow> m_cachedHmdInfo rt' = h"
  using assms deviceChanged_fields [of api h rt w fl rt' w']
  by (auto simp: detectDeviceChange_def split: if_splits)

subsection \<open>The entry point\<close>

lemma xrGetSystem_passed:
  "passesChecks rt instance getInfo \<Longrightarrow>
   xrGetSystem api instance getInfo systemId rt w =
     (case andThen (queryHmd api rt w) (detectDeviceChange api) of
        (Throw e, rt', w') \<Rightarrow> (Thrown e, systemId, rt', w')
      | (Return r, rt', w') \<Rightarrow> (Returned r, systemId, rt', w')
      | (Next _, rt', w') \<Rightarrow> (Returned XR_SUCCESS, 1, rt'\<lparr>m_systemCreated := True\<rparr>, w'))"
  by (simp add: xrGetSystem_def passesChecks_def)

lemma xrGetSystem_rejected:
  "\<not> passesChecks rt instance getInfo \<Longrightarrow>
   xrGetSystem api instance getInfo systemId rt w =
     (Returned (if getInfo_type getInfo \<noteq> XR_TYPE_SYSTEM_GET_INFO then XR_ERROR_VALIDATION_FAILURE
                else if \<not> m_instanceCreated rt \<or> instance \<noteq> 1 then XR_ERROR_HANDLE_INVALID
                else XR_ERROR_FORM_FACTOR_UNSUPPORTED), systemId, rt, w)"
  by (auto simp add: xrGetSystem_def passesChecks_def)

lemma passesChecks_session: "passesChecks (rt\<lparr>m_pvrSession := s\<rparr>) i g = passesChecks rt i g"
  by (simp add: passesChecks_def)

lemma snapshot_systemCreated: "snapshot (rt\<lparr>m_systemCreated := b\<rparr>) = snapshot rt"
  by (simp add: snapshot_def)

text \<open>A successful call went through the query of the HMD and the serial comparison.\<close>

lemma xrGetSystem_success:
  assumes "xrGetSystem api inst getInfo systemId rt w = (Returned XR_SUCCESS, sid, rt', w')"
  shows "passesChecks rt inst getInfo \<and> sid = 1 \<and>
         (\<exists>h rt1 w1 rt2. queryHmd api rt w = (Next h, rt1, w1) \<and> sessionOnly rt rt1
            \<and> detectDeviceChange api h rt1 w1 = (Next (), rt2, w')
            \<and> rt' = rt2\<lparr>m_systemCreated := True\<rparr>)"
proof -
  have p: "passesChecks rt inst getInfo"
  proof (rule ccontr)
    assume "\<not> passesChecks rt inst getInfo"
    from xrGetSystem_rejected [OF this, of api systemId w] assms show False
      by (auto split: if_splits)
  qed
  obtain fl1 rt1 w1 where q: "queryHmd api rt w = (fl1, rt1, w1)" by (cases "queryHmd api rt w")
  from assms xrGetSystem_passed [OF p, of api systemId w] q queryHmd_frame [OF q]
  obtain h where h: "fl1 = Next h"
    by (cases fl1) (auto simp: andThen_simps unavailableOr_def)
  obtain fl2 rt2 w2 where d: "detectDeviceChange api h rt1 w1 = (fl2, rt2, w2)"
    by (cases "detectDeviceChange api h rt1 w1")
  from assms xrGetSystem_passed [OF p, of api systemId w] q h d detectDeviceChange_frame(1) [OF d]
  have "fl2 = Next () \<and> sid = 1 \<and> rt' = rt2\<lparr>m_systemCreated := True\<rparr> \<and> w' = w2"
    by (cases fl2) (auto simp: andThen_simps)
  moreover from queryHmd_frame [OF q] h have "sessionOnly rt rt1" by (simp add: unavailableOr_def)
  ultimately show ?thesis using p q h d by auto
qed

text \<open>One call on the cached path.\<close>

lemma getSystem_cached_path:
  assumes res: "xrGetSystem api inst getInfo systemId rt w = (Returned XR_SUCCESS, sid, rt', w')"
    and rep: "map_option SerialNumber (reportedHmdInfo api rt w)
                = Some (SerialNumber (m_cachedHmdInfo rt))"
  shows "sid = 1 \<and> snapshot rt' = snapshot rt
         \<and> (\<exists>h rt1. queryHmd api rt w = (Next h, rt1, w') \<and> rt' = rt1\<lparr>m_systemCreated := True\<rparr>)"
proof -
  from xrGetSystem_success [OF res] obtain h rt1 w1 rt2 where
    sid: "sid = 1" and q: "queryHmd api rt w = (Next h, rt1, w1)" and so: "sessionOnly rt rt1" and
    d: "detectDeviceChange api h rt1 w1 = (Next (), rt2, w')" and
    r: "rt' = rt2\<lparr>m_systemCreated := True\<rparr>"
    by blast
  from rep q have "SerialNumber h = SerialNumber (m_cachedHmdInfo rt)"
    by (simp add: reportedHmdInfo_def)
  with sessionOnly_fields(2) [OF so] have "SerialNumber (m_cachedHmdInfo rt1) = SerialNumber h"
    by simp
  from detectDeviceChange_frame(2) [OF d this] have e: "rt2 = rt1" "w' = w1" by simp_all
  with sid q r sessionOnly_fields(1) [OF so] show ?thesis
    by (simp add: snapshot_systemCreated)
qed

text \<open>A successful call that leaves the cached serial number as it was derived nothing.\<close>

lemma getSystem_same_serial:
  assumes res: "xrGetSystem api inst getInfo systemId rt w = (Returned XR_SUCCESS, sid, rt', w')"
    and same: "SerialNumber (m_cachedHmdInfo rt') = SerialNumber (m_cachedHmdInfo rt)"
  shows "snapshot rt' = snapshot rt"
proof -
  from xrGetSystem_success [OF res] obtain h rt1 w1 rt2 where
    q: "queryHmd api rt w = (Next h, rt1, w1)" and so: "sessionOnly rt rt1" and
    d: "detectDeviceChange api h rt1 w1 = (Next (), rt2, w')" and
    r: "rt' = rt2\<lparr>m_systemCreated := True\<rparr>"
    by blast
  have "SerialNumber (m_cachedHmdInfo rt1) = SerialNumber h"
  proof (rule ccontr)
    assume n: "SerialNumber (m_cachedHmdInfo rt1) \<noteq> SerialNumber h"
    from detectDeviceChange_frame(3) [OF d n] r have "m_cachedHmdInfo rt' = h" by simp
    with same sessionOnly_fields(2) [OF so] n show False by simp
  qed
  from detectDeviceChange_frame(2) [OF d this] r sessionOnly_fields(1) [OF so]
  show ?thesis by (simp add: snapshot_systemCreated)
qed

subsection \<open>Running the model on the bench\<close>

lemmas bench_defs = bench_api_def bench_world_def bench_runtime_def bench_runtime_seen_def
  bench_getInfo_def bench_log_def bench_eye_def bench_eyeInfo_def bench_ready_def
  bench_headset_def bench_world_taken_over_def bench_world_steady_def
  bench_world_no_service_def
  pvrHmdInfo_zero_def pvrHmdStatus_zero_def pvrEyeRenderInfo_zero_def XrFovf_zero_def

lemmas block_defs = xrGetSystem_def queryHmd_def checkExistingSession_def ensureAndQuery_def
  ensurePvrSession_def queryPresentHmd_def refreshStatus_def detectDeviceChange_def
  deviceChanged_def selectEyeTracker_def cacheEyeRenderInfo_def deriveProjection_def
  useParallelProjection_def cantingAngle_def cantingEpsilon_def value_or_def
  CHECK_PVRCMD_def CHECK_PVRCMD_out_def andThen_simps Let_def

section \<open>The projection mode\<close>

text \<open>
  Every single-precision number from \<open>2 ^ -14\<close> upwards is a multiple of \<open>2 ^ -37\<close>, and
  on such numbers the comparison with \<open>0.0001f\<close> agrees with the comparison with one
  ten-thousandth.
\<close>

lemma cantingEpsilon_single_precision:
  fixes k :: int
  shows "(real_of_int k / 2 ^ 37 > cantingEpsilon) = (real_of_int k / 2 ^ 37 > 1 / 10000)"
proof -
  have a: "(real_of_int k / 2 ^ 37 > cantingEpsilon) = (k > 13743895)"
    by (simp add: cantingEpsilon_def field_simps)
  have "(real_of_int k / 2 ^ 37 > 1 / 10000)
          = (real_of_int (10000 * k) > real_of_int 137438953472)"
    by (simp add: field_simps)
  also have "\<dots> = (10000 * k > 137438953472)"
    by (simp only: of_int_less_iff)
  also have "\<dots> = (k > 13743895)" by arith
  finally show ?thesis using a by simp
qed

lemma selectEyeTracker_keeps:
  assumes "selectEyeTracker api rt w = (rt', w')"
  shows "m_pvrSession rt' = m_pvrSession rt" and "m_cachedEyeInfo rt' = m_cachedEyeInfo rt"
proof -
  obtain d wd where "initializeDroolon api w = (d, wd)" by (cases "initializeDroolon api w")
  with assms show "m_pvrSession rt' = m_pvrSession rt" and "m_cachedEyeInfo rt' = m_cachedEyeInfo rt"
    by (auto simp: selectEyeTracker_def Let_def split: if_splits bool.splits)
qed

lemma cacheEyeRenderInfo_reported:
  assumes "pvr_getEyeRenderInfo api (m_pvrSession rt) pvrEye_Left (fst (m_cachedEyeInfo rt)) w
             = (pvr_success, infoL, wL)"
    and "pvr_getEyeRenderInfo api (m_pvrSession rt) pvrEye_Right (snd (m_cachedEyeInfo rt)) wL
             = (pvr_success, infoR, wR)"
  shows "cacheEyeRenderInfo api rt w = (Next (), rt\<lparr>m_cachedEyeInfo := (infoL, infoR)\<rparr>, wR)"
  using assms by (simp add: cacheEyeRenderInfo_def CHECK_PVRCMD_def andThen_simps)

text \<open>
  The projection mode that a call leaves behind when it takes the device-change branch
  and the two eye-geometry queries at lines 152 and 153 succeed.
\<close>

lemma getSystem_derives_projection:
  assumes p: "passesChecks rt inst getInfo"
    and q: "queryHmd api rt w = (Next hmdInfo, rt1, w1)"
    and changed: "SerialNumber (m_cachedHmdInfo rt1) \<noteq> SerialNumber hmdInfo"
    and s0: "pvr_setIntConfig api (m_pvrSession rt1) ''view_rotation_fix'' 0 w1 = (pvr_success, w2)"
    and et: "selectEyeTracker api (rt1\<lparr>m_cachedHmdInfo := hmdInfo\<rparr>) w2 = (rt3, w3)"
    and eL: "pvr_getEyeRenderInfo api (m_pvrSession rt1) pvrEye_Left (fst (m_cachedEyeInfo rt1)) w3
               = (pvr_success, infoL, wL)"
    and eR: "pvr_getEyeRenderInfo api (m_pvrSession rt1) pvrEye_Right (snd (m_cachedEyeInfo rt1)) wL
               = (pvr_success, infoR, wR)"
  shows "m_useParallelProjection (fst (snd (snd (xrGetSystem api inst getInfo systemId rt w))))
           = (Quatf_Angle api (Orientation (HmdToEyePose infoL)) (Orientation (HmdToEyePose infoR)) / 2
                > cantingEpsilon
              \<and> value_or (getSetting api ''force_parallel_projection_state'' wR)
                   (if pvr_getIntConfig api (m_pvrSession rt1) ''steamvr_use_native_fov'' 0 wR = 0
                    then 1 else 0) \<noteq> 0)"
proof -
  note k = selectEyeTracker_keeps [OF et]
  from k have s3: "m_pvrSession rt3 = m_pvrSession rt1"
    and e3: "m_cachedEyeInfo rt3 = m_cachedEyeInfo rt1" by simp_all
  from eL eR s3 e3
  have c: "cacheEyeRenderInfo api rt3 w3 = (Next (), rt3\<lparr>m_cachedEyeInfo := (infoL, infoR)\<rparr>, wR)"
    by (intro cacheEyeRenderInfo_reported) simp_all
  let ?rt5 = "rt3\<lparr>m_cachedEyeInfo := (infoL, infoR),
                  m_floorHeight := pvr_getFloatConfig api (m_pvrSession rt1)
                                     (CONFIG_KEY_EYE_HEIGHT api) 0 wR\<rparr>"
  have d: "deviceChanged api hmdInfo rt1 w1 = deriveProjection api ?rt5 wR"
    using s0 et c s3 by (simp add: deviceChanged_def Let_def CHECK_PVRCMD_def andThen_simps)
  have u: "useParallelProjection api ?rt5 wR
           = (Quatf_Angle api (Orientation (HmdToEyePose infoL)) (Orientation (HmdToEyePose infoR)) / 2
                > cantingEpsilon
              \<and> value_or (getSetting api ''force_parallel_projection_state'' wR)
                   (if pvr_getIntConfig api (m_pvrSession rt1) ''steamvr_use_native_fov'' 0 wR = 0
                    then 1 else 0) \<noteq> 0)"
    by (simp add: useParallelProjection_def cantingAngle_def s3)
  obtain fl rt' w' where r: "deriveProjection api ?rt5 wR = (fl, rt', w')"
    by (cases "deriveProjection api ?rt5 wR")
  from deriveProjection_fields [OF r] have f: "m_useParallelProjection rt' = useParallelProjection api ?rt5 wR"
    and nr: "\<forall>x. fl \<noteq> Return x" by simp_all
  have "m_useParallelProjection (fst (snd (snd (xrGetSystem api inst getInfo systemId rt w))))
          = m_useParallelProjection rt'"
    using q changed d r nr
    by (cases fl) (simp_all add: xrGetSystem_passed [OF p] andThen_simps detectDeviceChange_def)
  with f u show ?thesis by simp
qed

lemma bench_first_call:
  "\<exists>rt1 w1 w2 rt3 w3 wL wR.
      queryHmd bench_api bench_runtime (bench_world c s) = (Next (bench_headset ''A''), rt1, w1)
    \<and> SerialNumber (m_cachedHmdInfo rt1) \<noteq> SerialNumber (bench_headset ''A'')
    \<and> pvr_setIntConfig bench_api (m_pvrSession rt1) ''view_rotation_fix'' 0 w1 = (pvr_success, w2)
    \<and> selectEyeTracker bench_api (rt1\<lparr>m_cachedHmdInfo := bench_headset ''A''\<rparr>) w2 = (rt3, w3)
    \<and> pvr_getEyeRenderInfo bench_api (m_pvrSession rt1) pvrEye_Left (fst (m_cachedEyeInfo rt1)) w3
         = (pvr_success, bench_eyeInfo (- c) 1, wL)
    \<and> pvr_getEyeRenderInfo bench_api (m_pvrSession rt1) pvrEye_Right (snd (m_cachedEyeInfo rt1)) wL
         = (pvr_success, bench_eyeInfo c 1, wR)
    \<and> getSetting bench_api ''force_parallel_projection_state'' wR
         = map_of s ''force_parallel_projection_state''
    \<and> pvr_getIntConfig bench_api (m_pvrSession rt1) ''steamvr_use_native_fov'' 0 wR = 0"
  by (simp add: block_defs bench_defs)

lemma bench_passes: "passesChecks bench_runtime 1 bench_getInfo"
  by (simp add: passesChecks_def bench_defs)

lemma bench_angle:
  "Quatf_Angle bench_api (Orientation (HmdToEyePose (bench_eyeInfo (- c) 1)))
     (Orientation (HmdToEyePose (bench_eyeInfo c 1))) / 2 = \<bar>c\<bar>"
  by (simp add: bench_api_def bench_eyeInfo_def)

text \<open>
  Claim C1, as amended. Take a call of \<open>xrGetSystem\<close> that passes its checks, reads HMD
  properties whose serial number differs from the cached one, and gets the two eye
  geometries \<open>infoL\<close> and \<open>infoR\<close> from the device at lines 152 and 153. Where the
  setting \<open>force_parallel_projection_state\<close> is then present with value \<open>v\<close>, the call
  leaves \<open>m_useParallelProjection\<close> equal to the conjunction of "half the angle between
  the two reported eye orientations exceeds \<open>0.0001f\<close>" and "\<open>v\<close> is nonzero": above the
  threshold the override decides, and at or below it the value is false whatever the
  override says. The native-FOV preference plays no part.
\<close>

theorem forced_projection_gated_by_canting:
  assumes "passesChecks rt inst getInfo"
    and "queryHmd api rt w = (Next hmdInfo, rt1, w1)"
    and "SerialNumber (m_cachedHmdInfo rt1) \<noteq> SerialNumber hmdInfo"
    and "pvr_setIntConfig api (m_pvrSession rt1) ''view_rotation_fix'' 0 w1 = (pvr_success, w2)"
    and "selectEyeTracker api (rt1\<lparr>m_cachedHmdInfo := hmdInfo\<rparr>) w2 = (rt3, w3)"
    and "pvr_getEyeRenderInfo api (m_pvrSession rt1) pvrEye_Left (fst (m_cachedEyeInfo rt1)) w3
           = (pvr_success, infoL, wL)"
    and "pvr_getEyeRenderInfo api (m_pvrSession rt1) pvrEye_Right (snd (m_cachedEyeInfo rt1)) wL
           = (pvr_success, infoR, wR)"
    and "getSetting api ''force_parallel_projection_state'' wR = Some v"
  shows "m_useParallelProjection (fst (snd (snd (xrGetSystem api inst getInfo systemId rt w))))
           = (Quatf_Angle api (Orientation (HmdToEyePose infoL)) (Orientation (HmdToEyePose infoR)) / 2
                > cantingEpsilon
              \<and> v \<noteq> 0)"
  using getSystem_derives_projection [OF assms(1-7), of systemId] assms(8)
  by (simp add: value_or_def)

theorem forced_projection_gated_by_canting_witness:
  "getSetting bench_api ''force_parallel_projection_state''
       (bench_world (1 / 100) [(''force_parallel_projection_state'', 0)]) = Some 0
   \<and> Quatf_Angle bench_api (Orientation (HmdToEyePose (bench_eyeInfo (- (1 / 100)) 1)))
        (Orientation (HmdToEyePose (bench_eyeInfo (1 / 100) 1))) / 2 > cantingEpsilon
   \<and> \<not> m_useParallelProjection (fst (snd (snd (xrGetSystem bench_api 1 bench_getInfo 0 bench_runtime
          (bench_world (1 / 100) [(''force_parallel_projection_state'', 0)])))))
   \<and> getSetting bench_api ''force_parallel_projection_state''
       (bench_world (1 / 100) [(''force_parallel_projection_state'', 1)]) = Some 1
   \<and> m_useParallelProjection (fst (snd (snd (xrGetSystem bench_api 1 bench_getInfo 0 bench_runtime
          (bench_world (1 / 100) [(''force_parallel_projection_state'', 1)])))))"
proof -
  have a: "Quatf_Angle bench_api (Orientation (HmdToEyePose (bench_eyeInfo (- (1 / 100)) 1)))
        (Orientation (HmdToEyePose (bench_eyeInfo (1 / 100) 1))) / 2 > cantingEpsilon"
    by (simp add: bench_angle cantingEpsilon_def)
  have g: "getSetting bench_api ''force_parallel_projection_state''
       (bench_world (1 / 100) [(''force_parallel_projection_state'', 0)]) = Some 0"
       "getSetting bench_api ''force_parallel_projection_state''
       (bench_world (1 / 100) [(''force_parallel_projection_state'', 1)]) = Some 1"
    by (simp_all add: bench_defs)
  have off: "\<not> m_useParallelProjection (fst (snd (snd (xrGetSystem bench_api 1 bench_getInfo 0
          bench_runtime (bench_world (1 / 100) [(''force_parallel_projection_state'', 0)])))))"
  proof -
    from bench_first_call [of "1 / 100" "[(''force_parallel_projection_state'', 0)]"]
    obtain rt1 w1 w2 rt3 w3 wL wR where
      h: "queryHmd bench_api bench_runtime
            (bench_world (1 / 100) [(''force_parallel_projection_state'', 0)])
            = (Next (bench_headset ''A''), rt1, w1)"
         "SerialNumber (m_cachedHmdInfo rt1) \<noteq> SerialNumber (bench_headset ''A'')"
         "pvr_setIntConfig bench_api (m_pvrSession rt1) ''view_rotation_fix'' 0 w1 = (pvr_success, w2)"
         "selectEyeTracker bench_api (rt1\<lparr>m_cachedHmdInfo := bench_headset ''A''\<rparr>) w2 = (rt3, w3)"
         "pvr_getEyeRenderInfo bench_api (m_pvrSession rt1) pvrEye_Left (fst (m_cachedEyeInfo rt1)) w3
            = (pvr_success, bench_eyeInfo (- (1 / 100)) 1, wL)"
         "pvr_getEyeRenderInfo bench_api (m_pvrSession rt1) pvrEye_Right (snd (m_cachedEyeInfo rt1)) wL
            = (pvr_success, bench_eyeInfo (1 / 100) 1, wR)"
         "getSetting bench_api ''force_parallel_projection_state'' wR = Some 0"
      by auto
    from forced_projection_gated_by_canting [OF bench_passes h, of 0] show ?thesis by simp
  qed
  have on: "m_useParallelProjection (fst (snd (snd (xrGetSystem bench_api 1 bench_getInfo 0
          bench_runtime (bench_world (1 / 100) [(''force_parallel_projection_state'', 1)])))))"
  proof -
    from bench_first_call [of "1 / 100" "[(''force_parallel_projection_state'', 1)]"]
    obtain rt1 w1 w2 rt3 w3 wL wR where
      h: "queryHmd bench_api bench_runtime
            (bench_world (1 / 100) [(''force_parallel_projection_state'', 1)])
            = (Next (bench_headset ''A''), rt1, w1)"
         "SerialNumber (m_cachedHmdInfo rt1) \<noteq> SerialNumber (bench_headset ''A'')"
         "pvr_setIntConfig bench_api (m_pvrSession rt1) ''view_rotation_fix'' 0 w1 = (pvr_success, w2)"
         "selectEyeTracker bench_api (rt1\<lparr>m_cachedHmdInfo := bench_headset ''A''\<rparr>) w2 = (rt3, w3)"
         "pvr_getEyeRenderInfo bench_api (m_pvrSession rt1) pvrEye_Left (fst (m_cachedEyeInfo rt1)) w3
            = (pvr_success, bench_eyeInfo (- (1 / 100)) 1, wL)"
         "pvr_getEyeRenderInfo bench_api (m_pvrSession rt1) pvrEye_Right (snd (m_cachedEyeInfo rt1)) wL
            = (pvr_success, bench_eyeInfo (1 / 100) 1, wR)"
         "getSetting bench_api ''force_parallel_projection_state'' wR = Some 1"
      by auto
    from forced_projection_gated_by_canting [OF bench_passes h, of 0] a show ?thesis by simp
  qed
  from a g off on show ?thesis by simp
qed

text \<open>
  Claim C1 as stated fails: a first call on a headset without canting, with the override
  present and set to 1, succeeds, runs the derivation, and leaves the projection mode off.
\<close>

theorem forced_projection_counterexample:
  "getSetting bench_api ''force_parallel_projection_state''
       (bench_world 0 [(''force_parallel_projection_state'', 1)]) = Some 1
   \<and> (case xrGetSystem bench_api 1 bench_getInfo 0 bench_runtime
          (bench_world 0 [(''force_parallel_projection_state'', 1)]) of
      (res, sid, rt', w') \<Rightarrow>
        res = Returned XR_SUCCESS \<and> m_cachedHmdInfo rt' = bench_headset ''A''
        \<and> cantingAngle bench_api rt' = 0
        \<and> \<not> m_useParallelProjection rt')"
  by (simp add: block_defs bench_defs)

text \<open>
  Claim C2. Take a call of \<open>xrGetSystem\<close> that passes its checks, reads HMD properties
  whose serial number differs from the cached one, and gets the two eye geometries
  \<open>infoL\<close> and \<open>infoR\<close> from the device at lines 152 and 153. Where the setting
  \<open>force_parallel_projection_state\<close> is then absent, the call leaves
  \<open>m_useParallelProjection\<close> true exactly when half the angle between the two reported
  eye orientations exceeds \<open>0.0001f\<close> and \<open>steamvr_use_native_fov\<close> reads 0. A canting
  angle of 0 gives false; a canting angle of 0.01 with the preference off gives true.
\<close>

theorem projection_without_override:
  assumes "passesChecks rt inst getInfo"
    and "queryHmd api rt w = (Next hmdInfo, rt1, w1)"
    and "SerialNumber (m_cachedHmdInfo rt1) \<noteq> SerialNumber hmdInfo"
    and "pvr_setIntConfig api (m_pvrSession rt1) ''view_rotation_fix'' 0 w1 = (pvr_success, w2)"
    and "selectEyeTracker api (rt1\<lparr>m_cachedHmdInfo := hmdInfo\<rparr>) w2 = (rt3, w3)"
    and "pvr_getEyeRenderInfo api (m_pvrSession rt1) pvrEye_Left (fst (m_cachedEyeInfo rt1)) w3
           = (pvr_success, infoL, wL)"
    and "pvr_getEyeRenderInfo api (m_pvrSession rt1) pvrEye_Right (snd (m_cachedEyeInfo rt1)) wL
           = (pvr_success, infoR, wR)"
    and "getSetting api ''force_parallel_projection_state'' wR = None"
  shows "(m_useParallelProjection (fst (snd (snd (xrGetSystem api inst getInfo systemId rt w))))
           \<longleftrightarrow> Quatf_Angle api (Orientation (HmdToEyePose infoL)) (Orientation (HmdToEyePose infoR)) / 2
                 > cantingEpsilon
               \<and> pvr_getIntConfig api (m_pvrSession rt1) ''steamvr_use_native_fov'' 0 wR = 0)
         \<and> (Quatf_Angle api (Orientation (HmdToEyePose infoL)) (Orientation (HmdToEyePose infoR)) / 2 = 0
              \<longrightarrow> \<not> m_useParallelProjection
                      (fst (snd (snd (xrGetSystem api inst getInfo systemId rt w)))))
         \<and> (Quatf_Angle api (Orientation (HmdToEyePose infoL)) (Orientation (HmdToEyePose infoR)) / 2
                = 1 / 100
              \<and> pvr_getIntConfig api (m_pvrSession rt1) ''steamvr_use_native_fov'' 0 wR = 0
              \<longrightarrow> m_useParallelProjection
                    (fst (snd (snd (xrGetSystem api inst getInfo systemId rt w)))))"
  using getSystem_derives_projection [OF assms(1-7), of systemId] assms(8)
  by (simp add: value_or_def cantingEpsilon_def)

theorem projection_without_override_witness:
  "getSetting bench_api ''force_parallel_projection_state'' (bench_world (1 / 100) []) = None
   \<and> Quatf_Angle bench_api (Orientation (HmdToEyePose (bench_eyeInfo (- (1 / 100)) 1)))
        (Orientation (HmdToEyePose (bench_eyeInfo (1 / 100) 1))) / 2 = 1 / 100
   \<and> m_useParallelProjection (fst (snd (snd (xrGetSystem bench_api 1 bench_getInfo 0 bench_runtime
          (bench_world (1 / 100) [])))))
   \<and> Quatf_Angle bench_api (Orientation (HmdToEyePose (bench_eyeInfo 0 1)))
        (Orientation (HmdToEyePose (bench_eyeInfo 0 1))) / 2 = 0
   \<and> \<not> m_useParallelProjection (fst (snd (snd (xrGetSystem bench_api 1 bench_getInfo 0 bench_runtime
          (bench_world 0 [])))))"
proof -
  have a: "Quatf_Angle bench_api (Orientation (HmdToEyePose (bench_eyeInfo (- (1 / 100)) 1)))
        (Orientation (HmdToEyePose (bench_eyeInfo (1 / 100) 1))) / 2 = 1 / 100"
    by (simp add: bench_angle)
  have z: "Quatf_Angle bench_api (Orientation (HmdToEyePose (bench_eyeInfo 0 1)))
        (Orientation (HmdToEyePose (bench_eyeInfo 0 1))) / 2 = 0"
    by (simp add: bench_api_def bench_eyeInfo_def)
  have g: "getSetting bench_api ''force_parallel_projection_state'' (bench_world (1 / 100) []) = None"
    by (simp add: bench_defs)
  have on: "m_useParallelProjection (fst (snd (snd (xrGetSystem bench_api 1 bench_getInfo 0
          bench_runtime (bench_world (1 / 100) [])))))"
  proof -
    from bench_first_call [of "1 / 100" "[]"]
    obtain rt1 w1 w2 rt3 w3 wL wR where
      h: "queryHmd bench_api bench_runtime (bench_world (1 / 100) [])
            = (Next (bench_headset ''A''), rt1, w1)"
         "SerialNumber (m_cachedHmdInfo rt1) \<noteq> SerialNumber (bench_headset ''A'')"
         "pvr_setIntConfig bench_api (m_pvrSession rt1) ''view_rotation_fix'' 0 w1 = (pvr_success, w2)"
         "selectEyeTracker bench_api (rt1\<lparr>m_cachedHmdInfo := bench_headset ''A''\<rparr>) w2 = (rt3, w3)"
         "pvr_getEyeRenderInfo bench_api (m_pvrSession rt1) pvrEye_Left (fst (m_cachedEyeInfo rt1)) w3
            = (pvr_success, bench_eyeInfo (- (1 / 100)) 1, wL)"
         "pvr_getEyeRenderInfo bench_api (m_pvrSession rt1) pvrEye_Right (snd (m_cachedEyeInfo rt1)) wL
            = (pvr_success, bench_eyeInfo (1 / 100) 1, wR)"
         "getSetting bench_api ''force_parallel_projection_state'' wR = None"
      and n: "pvr_getIntConfig bench_api (m_pvrSession rt1) ''steamvr_use_native_fov'' 0 wR = 0"
      by auto
    from projection_without_override [OF bench_passes h, of 0] a n show ?thesis by blast
  qed
  have off: "\<not> m_useParallelProjection (fst (snd (snd (xrGetSystem bench_api 1 bench_getInfo 0
          bench_runtime (bench_world 0 [])))))"
  proof -
    from bench_first_call [of 0 "[]"]
    obtain rt1 w1 w2 rt3 w3 wL wR where
      h: "queryHmd bench_api bench_runtime (bench_world 0 [])
            = (Next (bench_headset ''A''), rt1, w1)"
         "SerialNumber (m_cachedHmdInfo rt1) \<noteq> SerialNumber (bench_headset ''A'')"
         "pvr_setIntConfig bench_api (m_pvrSession rt1) ''view_rotation_fix'' 0 w1 = (pvr_success, w2)"
         "selectEyeTracker bench_api (rt1\<lparr>m_cachedHmdInfo := bench_headset ''A''\<rparr>) w2 = (rt3, w3)"
         "pvr_getEyeRenderInfo bench_api (m_pvrSession rt1) pvrEye_Left (fst (m_cachedEyeInfo rt1)) w3
            = (pvr_success, bench_eyeInfo 0 1, wL)"
         "pvr_getEyeRenderInfo bench_api (m_pvrSession rt1) pvrEye_Right (snd (m_cachedEyeInfo rt1)) wL
            = (pvr_success, bench_eyeInfo 0 1, wR)"
         "getSetting bench_api ''force_parallel_projection_state'' wR = None"
      by auto
    from projection_without_override [OF bench_passes h, of 0] z show ?thesis by blast
  qed
  from a z g on off show ?thesis by simp
qed

section \<open>The cached path\<close>

text \<open>
  Claim C3. In a sequence of calls that all succeed and all read a serial number equal
  to the cached one, every call returns \<open>XR_SUCCESS\<close> with system identifier 1, the
  snapshot before and after every call is the snapshot at the start, and every call
  skips the derivation: it ends in the state reached at line 115, with only
  \<open>m_systemCreated\<close> set, and the world it leaves is the world after the HMD query.
\<close>

theorem getSystem_cache_idempotent:
  "successfulWithoutDeviceChange api rt calls \<Longrightarrow>
   \<forall>(rtb, w, res, sid, rt', w') \<in> set (runGetSystem api rt calls).
      res = Returned XR_SUCCESS \<and> sid = 1
      \<and> snapshot rtb = snapshot rt \<and> snapshot rt' = snapshot rt
      \<and> (\<exists>h rt1. queryHmd api rtb w = (Next h, rt1, w') \<and> rt' = rt1\<lparr>m_systemCreated := True\<rparr>)"
proof (induction calls arbitrary: rt)
  case Nil
  show ?case by simp
next
  case (Cons c calls)
  obtain inst getInfo systemId w where c: "c = (inst, getInfo, systemId, w)"
    by (cases c)
  obtain res sid rt' w' where
    x: "xrGetSystem api inst getInfo systemId rt w = (res, sid, rt', w')"
    by (cases "xrGetSystem api inst getInfo systemId rt w")
  from Cons.prems c x have
    ok: "res = Returned XR_SUCCESS" and
    rep: "map_option SerialNumber (reportedHmdInfo api rt w)
            = Some (SerialNumber (m_cachedHmdInfo rt))" and
    rest: "successfulWithoutDeviceChange api rt' calls"
    by simp_all
  from getSystem_cached_path [OF x [unfolded ok] rep] have
    first: "sid = 1" "snapshot rt' = snapshot rt"
        "\<exists>h rt1. queryHmd api rt w = (Next h, rt1, w') \<and> rt' = rt1\<lparr>m_systemCreated := True\<rparr>"
    by simp_all
  from Cons.IH [OF rest] first(2) have
    later: "\<forall>(rtb, w, res, sid, rt'', w') \<in> set (runGetSystem api rt' calls).
      res = Returned XR_SUCCESS \<and> sid = 1
      \<and> snapshot rtb = snapshot rt \<and> snapshot rt'' = snapshot rt
      \<and> (\<exists>h rt1. queryHmd api rtb w = (Next h, rt1, w')
                    \<and> rt'' = rt1\<lparr>m_systemCreated := True\<rparr>)"
    by simp
  from c x ok first later show ?case by simp
qed

theorem getSystem_cache_idempotent_witness:
  "successfulWithoutDeviceChange bench_api bench_runtime_seen
     [(1, bench_getInfo, 0, bench_world_steady), (1, bench_getInfo, 5, bench_world_steady)]
   \<and> map (\<lambda>(rtb, w, res, sid, rt', w').
             (res, sid, snapshot rtb = snapshot bench_runtime_seen,
              snapshot rt' = snapshot bench_runtime_seen))
         (runGetSystem bench_api bench_runtime_seen
            [(1, bench_getInfo, 0, bench_world_steady), (1, bench_getInfo, 5, bench_world_steady)])
       = [(Returned XR_SUCCESS, 1, True, True), (Returned XR_SUCCESS, 1, True, True)]"
proof -
  have h: "successfulWithoutDeviceChange bench_api bench_runtime_seen
     [(1, bench_getInfo, 0, bench_world_steady), (1, bench_getInfo, 5, bench_world_steady)]"
    by (simp add: reportedHmdInfo_def block_defs bench_defs)
  have r: "runGetSystem bench_api bench_runtime_seen
            [(1, bench_getInfo, 0, bench_world_steady), (1, bench_getInfo, 5, bench_world_steady)]
          = [(bench_runtime_seen, bench_world_steady,
              xrGetSystem bench_api 1 bench_getInfo 0 bench_runtime_seen bench_world_steady),
             (fst (snd (snd (xrGetSystem bench_api 1 bench_getInfo 0 bench_runtime_seen
                               bench_world_steady))),
              bench_world_steady,
              xrGetSystem bench_api 1 bench_getInfo 5
                (fst (snd (snd (xrGetSystem bench_api 1 bench_getInfo 0 bench_runtime_seen
                                  bench_world_steady))))
                bench_world_steady)]"
    by (simp split: prod.splits)
  from getSystem_cache_idempotent [OF h] h show ?thesis
    unfolding r by (auto split: prod.splits)
qed

section \<open>The should-quit recovery\<close>

lemma refreshStatus_stale:
  "refreshStatus api st False rt w = CHECK_PVRCMD_out (pvr_getHmdStatus api (m_pvrSession rt) w) rt"
  by (simp add: refreshStatus_def)

lemma queryPresentHmd_stale:
  "queryPresentHmd api st False rt w = queryPresentHmd api pvrHmdStatus_zero False rt w"
  unfolding queryPresentHmd_def refreshStatus_stale ..

lemma ensureAndQuery_stale:
  "ensureAndQuery api st False rt w = ensureAndQuery api pvrHmdStatus_zero False rt w"
  unfolding ensureAndQuery_def queryPresentHmd_stale [of api st] ..

lemma checkExistingSession_none:
  "m_pvrSession rt = None \<Longrightarrow>
   checkExistingSession api rt w = (Next (pvrHmdStatus_zero, False), rt, w)"
  by (simp add: checkExistingSession_def)

lemma checkExistingSession_quit:
  "m_pvrSession rt \<noteq> None \<Longrightarrow>
   pvr_getHmdStatus api (m_pvrSession rt) w = (pvr_success, status, w1) \<Longrightarrow> ShouldQuit status \<Longrightarrow>
   checkExistingSession api rt w =
     (Next (status, False), rt\<lparr>m_pvrSession := None\<rparr>, pvr_destroySession api (m_pvrSession rt) w1)"
  by (simp add: checkExistingSession_def CHECK_PVRCMD_out_def andThen_simps)

lemma queryHmd_quit:
  assumes "m_pvrSession rt \<noteq> None"
    and "pvr_getHmdStatus api (m_pvrSession rt) w = (pvr_success, status, w1)"
    and "ShouldQuit status"
  shows "queryHmd api rt w =
     ensureAndQuery api pvrHmdStatus_zero False (rt\<lparr>m_pvrSession := None\<rparr>)
       (pvr_destroySession api (m_pvrSession rt) w1)"
    and "queryHmd api rt w =
     queryHmd api (rt\<lparr>m_pvrSession := None\<rparr>) (pvr_destroySession api (m_pvrSession rt) w1)"
proof -
  show a: "queryHmd api rt w =
     ensureAndQuery api pvrHmdStatus_zero False (rt\<lparr>m_pvrSession := None\<rparr>)
       (pvr_destroySession api (m_pvrSession rt) w1)"
    using checkExistingSession_quit [OF assms] ensureAndQuery_stale [of api status]
    by (simp add: queryHmd_def andThen_simps)
  show "queryHmd api rt w =
     queryHmd api (rt\<lparr>m_pvrSession := None\<rparr>) (pvr_destroySession api (m_pvrSession rt) w1)"
    unfolding a by (simp add: queryHmd_def checkExistingSession_none andThen_simps)
qed

text \<open>
  Claim C4, as amended. A call that passes the checks, finds a session and reads a status
  with the should-quit flag destroys that session and then does exactly what a call
  without a session does in the world after the teardown: it creates a session and
  queries the status afresh before the presence check. Whether the cached per-eye
  geometry is derived again depends on the serial number alone: when the call succeeds
  and the cached serial number is the same after it, the cached eye geometry and the
  whole snapshot are those from before the call.
\<close>

theorem should_quit_recreates_session:
  assumes "passesChecks rt inst getInfo"
    and "m_pvrSession rt \<noteq> None"
    and "pvr_getHmdStatus api (m_pvrSession rt) w = (pvr_success, status, w1)"
    and "ShouldQuit status"
  shows "xrGetSystem api inst getInfo systemId rt w =
           xrGetSystem api inst getInfo systemId (rt\<lparr>m_pvrSession := None\<rparr>)
             (pvr_destroySession api (m_pvrSession rt) w1)
         \<and> queryHmd api rt w =
             ensureAndQuery api pvrHmdStatus_zero False (rt\<lparr>m_pvrSession := None\<rparr>)
               (pvr_destroySession api (m_pvrSession rt) w1)
         \<and> (\<forall>st rt2 w2. refreshStatus api st False rt2 w2 =
               CHECK_PVRCMD_out (pvr_getHmdStatus api (m_pvrSession rt2) w2) rt2)
         \<and> (\<forall>sid rt' w'.
               xrGetSystem api inst getInfo systemId rt w = (Returned XR_SUCCESS, sid, rt', w')
               \<and> SerialNumber (m_cachedHmdInfo rt') = SerialNumber (m_cachedHmdInfo rt)
               \<longrightarrow> m_cachedEyeInfo rt' = m_cachedEyeInfo rt \<and> snapshot rt' = snapshot rt)"
proof -
  note q = queryHmd_quit [OF assms(2-4)]
  have 1: "xrGetSystem api inst getInfo systemId rt w =
           xrGetSystem api inst getInfo systemId (rt\<lparr>m_pvrSession := None\<rparr>)
             (pvr_destroySession api (m_pvrSession rt) w1)"
    using assms(1) q(2)
    by (simp add: xrGetSystem_passed passesChecks_session)
  have 4: "\<And>sid rt' w'.
               xrGetSystem api inst getInfo systemId rt w = (Returned XR_SUCCESS, sid, rt', w')
               \<Longrightarrow> SerialNumber (m_cachedHmdInfo rt') = SerialNumber (m_cachedHmdInfo rt)
               \<Longrightarrow> m_cachedEyeInfo rt' = m_cachedEyeInfo rt \<and> snapshot rt' = snapshot rt"
  proof -
    fix sid rt' w'
    assume a: "xrGetSystem api inst getInfo systemId rt w = (Returned XR_SUCCESS, sid, rt', w')"
      and b: "SerialNumber (m_cachedHmdInfo rt') = SerialNumber (m_cachedHmdInfo rt)"
    from getSystem_same_serial [OF a b]
    show "m_cachedEyeInfo rt' = m_cachedEyeInfo rt \<and> snapshot rt' = snapshot rt"
      by (simp add: snapshot_def)
  qed
  from 1 q(1) 4 show ?thesis by (simp add: refreshStatus_stale)
qed

theorem should_quit_recreates_session_witness:
  "passesChecks bench_runtime_seen 1 bench_getInfo
   \<and> m_pvrSession bench_runtime_seen \<noteq> None
   \<and> pvr_getHmdStatus bench_api (m_pvrSession bench_runtime_seen) bench_world_taken_over
       = (pvr_success, bench_ready\<lparr>ShouldQuit := True\<rparr>,
          bench_log (Call_getHmdStatus (Some 1)) bench_world_taken_over)
   \<and> ShouldQuit (bench_ready\<lparr>ShouldQuit := True\<rparr>)
   \<and> xrGetSystem bench_api 1 bench_getInfo 0 bench_runtime_seen bench_world_taken_over =
       xrGetSystem bench_api 1 bench_getInfo 0 (bench_runtime_seen\<lparr>m_pvrSession := None\<rparr>)
         (pvr_destroySession bench_api (m_pvrSession bench_runtime_seen)
            (bench_log (Call_getHmdStatus (Some 1)) bench_world_taken_over))"
proof -
  have a: "passesChecks bench_runtime_seen 1 bench_getInfo"
    by (simp add: passesChecks_def bench_defs)
  have b: "m_pvrSession bench_runtime_seen \<noteq> None"
    by (simp add: bench_defs)
  have c: "pvr_getHmdStatus bench_api (m_pvrSession bench_runtime_seen) bench_world_taken_over
       = (pvr_success, bench_ready\<lparr>ShouldQuit := True\<rparr>,
          bench_log (Call_getHmdStatus (Some 1)) bench_world_taken_over)"
    by (simp add: bench_defs)
  have d: "ShouldQuit (bench_ready\<lparr>ShouldQuit := True\<rparr>)"
    by simp
  from should_quit_recreates_session [OF a b c d, of 0] a b c d show ?thesis
    by blast
qed

text \<open>
  Claim C4 as stated fails in its last part. The runtime saw headset \<open>A\<close> through
  session 1; the vendor software takes over and changes the geometry. The next call tears
  session 1 down, creates session 2 and queries its status and properties, and it
  succeeds; it makes no eye-geometry query, and the cached eye geometry is the one
  derived before, which is not what session 2 reports.
\<close>

theorem should_quit_counterexample:
  "(case xrGetSystem bench_api 1 bench_getInfo 0 bench_runtime_seen bench_world_taken_over of
      (res, sid, rt', w') \<Rightarrow>
        res = Returned XR_SUCCESS
        \<and> bench_calls w' =
            [Call_getHmdStatus (Some 1), Call_destroySession (Some 1), Call_createSession,
             Call_setIntConfig (Some 2) ''view_rotation_fix'' 1,
             Call_setTrackingOriginType (Some 2) pvrTrackingOrigin_EyeLevel,
             Call_getHmdStatus (Some 2), Call_getHmdInfo (Some 2)]
        \<and> m_pvrSession rt' = Some 2
        \<and> m_cachedEyeInfo rt' = m_cachedEyeInfo bench_runtime_seen
        \<and> m_cachedEyeInfo rt' \<noteq> (bench_eye w' pvrEye_Left, bench_eye w' pvrEye_Right))"
  by (simp add: block_defs bench_defs)

section \<open>Unavailable hardware\<close>

lemma ensurePvrSession_soft_failure:
  "fst (ensurePvrSession api rt w) = Next False \<longleftrightarrow>
     m_pvrSession rt = None \<and> fst (pvr_createSession api w) = pvr_rpc_failed"
proof (cases "m_pvrSession rt = None")
  case False
  then show ?thesis by (auto simp: ensurePvrSession_def)
next
  case True
  obtain result session w1 where c: "pvr_createSession api w = (result, session, w1)"
    by (cases "pvr_createSession api w")
  obtain r2 w2 where s2: "pvr_setIntConfig api session ''view_rotation_fix''
       (if m_useParallelProjection rt then 1 else 0) w1 = (r2, w2)"
    by (cases "pvr_setIntConfig api session ''view_rotation_fix''
       (if m_useParallelProjection rt then 1 else 0) w1")
  obtain r3 w3 where s3:
    "pvr_setTrackingOriginType api session pvrTrackingOrigin_EyeLevel w2 = (r3, w3)"
    by (cases "pvr_setTrackingOriginType api session pvrTrackingOrigin_EyeLevel w2")
  from True c s2 s3 show ?thesis
    by (auto simp: ensurePvrSession_def Let_def andThen_simps CHECK_PVRCMD_def)
qed

lemma ensurePvrSession_fatal:
  assumes "m_pvrSession rt = None" and "fst (pvr_createSession api w) = e"
    and "e \<noteq> pvr_success" and "e \<noteq> pvr_rpc_failed"
  shows "fst (ensurePvrSession api rt w) = Throw e"
proof -
  obtain result session w1 where c: "pvr_createSession api w = (result, session, w1)"
    by (cases "pvr_createSession api w")
  with assms show ?thesis
    by (auto simp: ensurePvrSession_def Let_def andThen_simps CHECK_PVRCMD_def)
qed

lemma queryPresentHmd_Return:
  "fst (queryPresentHmd api st v rt w) = Return r \<longleftrightarrow>
     r = XR_ERROR_FORM_FACTOR_UNAVAILABLE
     \<and> (\<exists>st' w1. refreshStatus api st v rt w = (Next st', rt, w1)
           \<and> \<not> (ServiceReady st' \<and> HmdPresent st'))"
proof -
  obtain fl1 rt1 w1 where a: "refreshStatus api st v rt w = (fl1, rt1, w1)"
    by (cases "refreshStatus api st v rt w")
  from refreshStatus_frame [OF a] have rt1: "rt1 = rt" and nr: "\<forall>r. fl1 \<noteq> Return r"
    by simp_all
  show ?thesis
  proof (cases fl1)
    case (Throw e)
    with a show ?thesis by (simp add: queryPresentHmd_def andThen_simps)
  next
    case (Return x)
    with nr show ?thesis by simp
  next
    case (Next st')
    obtain fl2 rt2 w2 where
      g: "CHECK_PVRCMD_out (pvr_getHmdInfo api (m_pvrSession rt) w1) rt = (fl2, rt2, w2)"
      by (cases "CHECK_PVRCMD_out (pvr_getHmdInfo api (m_pvrSession rt) w1) rt")
    from getHmdInfo_frame [OF g] a rt1 Next g show ?thesis
      by (auto simp: queryPresentHmd_def andThen_simps)
  qed
qed

lemma ensureAndQuery_Return:
  "fst (ensureAndQuery api st v rt w) = Return r \<longleftrightarrow>
     r = XR_ERROR_FORM_FACTOR_UNAVAILABLE
     \<and> ((m_pvrSession rt = None \<and> fst (pvr_createSession api w) = pvr_rpc_failed)
        \<or> (\<exists>rt1 w1 st' w2. ensurePvrSession api rt w = (Next True, rt1, w1)
              \<and> refreshStatus api st v rt1 w1 = (Next st', rt1, w2)
              \<and> \<not> (ServiceReady st' \<and> HmdPresent st')))"
proof -
  obtain fl1 rt1 w1 where a: "ensurePvrSession api rt w = (fl1, rt1, w1)"
    by (cases "ensurePvrSession api rt w")
  from ensurePvrSession_frame [OF a] have nr: "\<forall>r. fl1 \<noteq> Return r" by simp
  note sf = ensurePvrSession_soft_failure [of api rt w, unfolded a, simplified]
  show ?thesis
  proof (cases fl1)
    case (Throw e)
    with a sf show ?thesis by (auto simp: ensureAndQuery_def andThen_simps)
  next
    case (Return x)
    with nr show ?thesis by simp
  next
    case (Next ensured)
    with a sf queryPresentHmd_Return [of api st v rt1 w1 r] show ?thesis
      by (cases ensured) (auto simp: ensureAndQuery_def andThen_simps)
  qed
qed

lemma queryHmd_Return:
  "fst (queryHmd api rt w) = Return r \<longleftrightarrow>
     r = XR_ERROR_FORM_FACTOR_UNAVAILABLE
     \<and> (\<exists>st v rt1 w1. checkExistingSession api rt w = (Next (st, v), rt1, w1)
         \<and> ((m_pvrSession rt1 = None \<and> fst (pvr_createSession api w1) = pvr_rpc_failed)
            \<or> (\<exists>rt2 w2 st' w3. ensurePvrSession api rt1 w1 = (Next True, rt2, w2)
                  \<and> refreshStatus api st v rt2 w2 = (Next st', rt2, w3)
                  \<and> \<not> (ServiceReady st' \<and> HmdPresent st'))))"
proof -
  obtain fl1 rt1 w1 where a: "checkExistingSession api rt w = (fl1, rt1, w1)"
    by (cases "checkExistingSession api rt w")
  from checkExistingSession_frame [OF a] have nr: "\<forall>r. fl1 \<noteq> Return r" by simp
  show ?thesis
  proof (cases fl1)
    case (Throw e)
    with a show ?thesis by (auto simp: queryHmd_def andThen_simps)
  next
    case (Return x)
    with nr show ?thesis by simp
  next
    case (Next sv)
    obtain st v where sv: "sv = (st, v)" by (cases sv)
    with a Next ensureAndQuery_Return [of api st v rt1 w1 r] show ?thesis
      by (auto simp: queryHmd_def andThen_simps)
  qed
qed

lemma xrGetSystem_outcome:
  assumes "passesChecks rt inst getInfo"
  shows "fst (xrGetSystem api inst getInfo systemId rt w) = Returned XR_ERROR_FORM_FACTOR_UNAVAILABLE
           \<longleftrightarrow> fst (queryHmd api rt w) = Return XR_ERROR_FORM_FACTOR_UNAVAILABLE"
    and "fst (queryHmd api rt w) = Return r \<Longrightarrow>
           xrGetSystem api inst getInfo systemId rt w
             = (Returned r, systemId, snd (queryHmd api rt w))"
    and "fst (queryHmd api rt w) = Throw e \<Longrightarrow>
           fst (xrGetSystem api inst getInfo systemId rt w) = Thrown e"
proof -
  obtain fl1 rt1 w1 where q: "queryHmd api rt w = (fl1, rt1, w1)" by (cases "queryHmd api rt w")
  show "fst (xrGetSystem api inst getInfo systemId rt w) = Returned XR_ERROR_FORM_FACTOR_UNAVAILABLE
           \<longleftrightarrow> fst (queryHmd api rt w) = Return XR_ERROR_FORM_FACTOR_UNAVAILABLE"
  proof (cases fl1)
    case (Next h)
    obtain fl2 rt2 w2 where d: "detectDeviceChange api h rt1 w1 = (fl2, rt2, w2)"
      by (cases "detectDeviceChange api h rt1 w1")
    from detectDeviceChange_frame(1) [OF d] q Next d show ?thesis
      by (cases fl2) (auto simp: xrGetSystem_passed [OF assms] andThen_simps)
  qed (use q in \<open>auto simp: xrGetSystem_passed [OF assms] andThen_simps\<close>)
  show "fst (queryHmd api rt w) = Return r \<Longrightarrow>
           xrGetSystem api inst getInfo systemId rt w
             = (Returned r, systemId, snd (queryHmd api rt w))"
    using q by (auto simp: xrGetSystem_passed [OF assms] andThen_simps)
  show "fst (queryHmd api rt w) = Throw e \<Longrightarrow>
           fst (xrGetSystem api inst getInfo systemId rt w) = Thrown e"
    using q by (auto simp: xrGetSystem_passed [OF assms] andThen_simps)
qed

text \<open>
  Claim C5, as amended. A call yields \<open>XR_ERROR_FORM_FACTOR_UNAVAILABLE\<close> exactly when it
  passes the three checks, the status block does not throw, and then either no session
  exists and \<open>pvr_createSession\<close> answers \<open>pvr_rpc_failed\<close>, or the session is ensured
  and the status then in hand is not both service-ready and HMD-present. In these cases
  the cached HMD properties are reset to the value-initialised structure, and every
  other member of the runtime object except the session handle is as before the call.
  Any other failure of session creation is thrown.
\<close>

theorem getSystem_unavailable:
  "(fst (xrGetSystem api inst getInfo systemId rt w) = Returned XR_ERROR_FORM_FACTOR_UNAVAILABLE
      \<longleftrightarrow> passesChecks rt inst getInfo
          \<and> (\<exists>st v rt1 w1. checkExistingSession api rt w = (Next (st, v), rt1, w1)
               \<and> ((m_pvrSession rt1 = None \<and> fst (pvr_createSession api w1) = pvr_rpc_failed)
                  \<or> (\<exists>rt2 w2 st' w3. ensurePvrSession api rt1 w1 = (Next True, rt2, w2)
                        \<and> refreshStatus api st v rt2 w2 = (Next st', rt2, w3)
                        \<and> \<not> (ServiceReady st' \<and> HmdPresent st')))))
   \<and> (fst (xrGetSystem api inst getInfo systemId rt w) = Returned XR_ERROR_FORM_FACTOR_UNAVAILABLE
        \<longrightarrow> m_cachedHmdInfo (fst (snd (snd (xrGetSystem api inst getInfo systemId rt w))))
              = pvrHmdInfo_zero
            \<and> sessionOnly (rt\<lparr>m_cachedHmdInfo := pvrHmdInfo_zero\<rparr>)
                (fst (snd (snd (xrGetSystem api inst getInfo systemId rt w)))))
   \<and> (\<forall>st v rt1 w1 e.
         passesChecks rt inst getInfo
         \<and> checkExistingSession api rt w = (Next (st, v), rt1, w1)
         \<and> m_pvrSession rt1 = None \<and> fst (pvr_createSession api w1) = e
         \<and> e \<noteq> pvr_success \<and> e \<noteq> pvr_rpc_failed
         \<longrightarrow> fst (xrGetSystem api inst getInfo systemId rt w) = Thrown e)"
proof (cases "passesChecks rt inst getInfo")
  case False
  from xrGetSystem_rejected [OF this, of api systemId w] False show ?thesis
    by (auto split: if_splits)
next
  case True
  note o = xrGetSystem_outcome [OF True, where api = api and systemId = systemId and w = w]
  have 1: "fst (xrGetSystem api inst getInfo systemId rt w) = Returned XR_ERROR_FORM_FACTOR_UNAVAILABLE
      \<longleftrightarrow> passesChecks rt inst getInfo
          \<and> (\<exists>st v rt1 w1. checkExistingSession api rt w = (Next (st, v), rt1, w1)
               \<and> ((m_pvrSession rt1 = None \<and> fst (pvr_createSession api w1) = pvr_rpc_failed)
                  \<or> (\<exists>rt2 w2 st' w3. ensurePvrSession api rt1 w1 = (Next True, rt2, w2)
                        \<and> refreshStatus api st v rt2 w2 = (Next st', rt2, w3)
                        \<and> \<not> (ServiceReady st' \<and> HmdPresent st'))))"
    using True o(1) queryHmd_Return [of api rt w XR_ERROR_FORM_FACTOR_UNAVAILABLE] by simp
  have 2: "m_cachedHmdInfo (fst (snd (snd (xrGetSystem api inst getInfo systemId rt w))))
              = pvrHmdInfo_zero
            \<and> sessionOnly (rt\<lparr>m_cachedHmdInfo := pvrHmdInfo_zero\<rparr>)
                (fst (snd (snd (xrGetSystem api inst getInfo systemId rt w))))"
    if u: "fst (xrGetSystem api inst getInfo systemId rt w) = Returned XR_ERROR_FORM_FACTOR_UNAVAILABLE"
  proof -
    obtain fl1 rt1 w1 where q: "queryHmd api rt w = (fl1, rt1, w1)" by (cases "queryHmd api rt w")
    from u o(1) q have f: "fl1 = Return XR_ERROR_FORM_FACTOR_UNAVAILABLE" by simp
    from queryHmd_frame [OF q] f
    have so: "sessionOnly (rt\<lparr>m_cachedHmdInfo := pvrHmdInfo_zero\<rparr>) rt1"
      by (simp add: unavailableOr_def)
    from o(2) [of XR_ERROR_FORM_FACTOR_UNAVAILABLE] q f
    have "fst (snd (snd (xrGetSystem api inst getInfo systemId rt w))) = rt1" by simp
    with so sessionOnly_fields(2) [OF so] show ?thesis by simp
  qed
  have 3: "fst (xrGetSystem api inst getInfo systemId rt w) = Thrown e"
    if c: "checkExistingSession api rt w = (Next (st, v), rt1, w1)"
      and n: "m_pvrSession rt1 = None" and f: "fst (pvr_createSession api w1) = e"
      and e: "e \<noteq> pvr_success" "e \<noteq> pvr_rpc_failed"
    for st v rt1 w1 e
  proof -
    obtain fl2 rt2 w2 where en: "ensurePvrSession api rt1 w1 = (fl2, rt2, w2)"
      by (cases "ensurePvrSession api rt1 w1")
    with ensurePvrSession_fatal [OF n f e] have "fl2 = Throw e" by simp
    with c en have "fst (queryHmd api rt w) = Throw e"
      by (simp add: queryHmd_def ensureAndQuery_def andThen_simps)
    from o(3) [OF this] show ?thesis .
  qed
  from 1 2 3 show ?thesis by blast
qed

theorem getSystem_unavailable_witness:
  "passesChecks (bench_runtime_seen\<lparr>m_pvrSession := None\<rparr>) 1 bench_getInfo
   \<and> checkExistingSession bench_api (bench_runtime_seen\<lparr>m_pvrSession := None\<rparr>)
        bench_world_no_service
       = (Next (pvrHmdStatus_zero, False), bench_runtime_seen\<lparr>m_pvrSession := None\<rparr>,
          bench_world_no_service)
   \<and> fst (pvr_createSession bench_api bench_world_no_service) = pvr_rpc_failed
   \<and> fst (xrGetSystem bench_api 1 bench_getInfo 0 (bench_runtime_seen\<lparr>m_pvrSession := None\<rparr>)
             bench_world_no_service) = Returned XR_ERROR_FORM_FACTOR_UNAVAILABLE
   \<and> m_cachedHmdInfo (fst (snd (snd (xrGetSystem bench_api 1 bench_getInfo 0
          (bench_runtime_seen\<lparr>m_pvrSession := None\<rparr>) bench_world_no_service))))
       = pvrHmdInfo_zero"
proof -
  let ?rt = "bench_runtime_seen\<lparr>m_pvrSession := None\<rparr>"
  have a: "passesChecks ?rt 1 bench_getInfo"
    by (simp add: passesChecks_def bench_defs)
  have b: "checkExistingSession bench_api ?rt bench_world_no_service
             = (Next (pvrHmdStatus_zero, False), ?rt, bench_world_no_service)"
    by (simp add: checkExistingSession_def)
  have c: "fst (pvr_createSession bench_api bench_world_no_service) = pvr_rpc_failed"
    by (simp add: bench_defs)
  have n: "m_pvrSession ?rt = None" by simp
  from getSystem_unavailable [of bench_api 1 bench_getInfo 0 ?rt bench_world_no_service] a b c n
  have "fst (xrGetSystem bench_api 1 bench_getInfo 0 ?rt bench_world_no_service)
          = Returned XR_ERROR_FORM_FACTOR_UNAVAILABLE"
    by blast
  with getSystem_unavailable [of bench_api 1 bench_getInfo 0 ?rt bench_world_no_service] a b c
  show ?thesis by blast
qed

text \<open>
  Claim C5 as stated fails in its middle part: with the service not running, a runtime
  that had cached headset \<open>A\<close> reports the form factor unavailable and resets the HMD
  properties, but keeps the projection mode and the eye geometry, so the snapshot is
  not the empty one.
\<close>

theorem getSystem_unavailable_counterexample:
  "(case xrGetSystem bench_api 1 bench_getInfo 0 (bench_runtime_seen\<lparr>m_pvrSession := None\<rparr>)
           bench_world_no_service of
      (res, sid, rt', w') \<Rightarrow>
        res = Returned XR_ERROR_FORM_FACTOR_UNAVAILABLE
        \<and> m_cachedHmdInfo rt' = pvrHmdInfo_zero
        \<and> m_useParallelProjection rt'
        \<and> m_cachedEyeInfo rt' = (bench_eyeInfo (- (1 / 100)) 2, bench_eyeInfo (1 / 100) 2)
        \<and> snapshot rt' \<noteq> snapshot_empty)"
  by (simp add: block_defs bench_defs snapshot_def snapshot_empty_def)

section \<open>The order of the argument checks\<close>

text \<open>
  Claim C6, as amended. In \<open>xrGetSystem\<close> and \<open>xrGetSystemProperties\<close> the check of the
  structure type tag comes first and the check of the instance handle second (in
  \<open>xrGetSystemProperties\<close> the system check third); a failed check returns at once and
  changes nothing. \<open>xrEnumerateEnvironmentBlendModes\<close> takes no tagged structure, and
  its first check is the one of the instance handle.
\<close>

theorem validation_precedes_handle_check:
  "(getInfo_type getInfo \<noteq> XR_TYPE_SYSTEM_GET_INFO \<longrightarrow>
      xrGetSystem api inst getInfo systemId rt w
        = (Returned XR_ERROR_VALIDATION_FAILURE, systemId, rt, w))
   \<and> (getInfo_type getInfo = XR_TYPE_SYSTEM_GET_INFO \<and> (\<not> m_instanceCreated rt \<or> inst \<noteq> 1) \<longrightarrow>
      xrGetSystem api inst getInfo systemId rt w
        = (Returned XR_ERROR_HANDLE_INVALID, systemId, rt, w))
   \<and> (properties_type properties \<noteq> XR_TYPE_SYSTEM_PROPERTIES \<longrightarrow>
      xrGetSystemProperties pvrMaxLayerCount rt inst systemId properties
        = (XR_ERROR_VALIDATION_FAILURE, properties))
   \<and> (properties_type properties = XR_TYPE_SYSTEM_PROPERTIES
        \<and> (\<not> m_instanceCreated rt \<or> inst \<noteq> 1) \<longrightarrow>
      xrGetSystemProperties pvrMaxLayerCount rt inst systemId properties
        = (XR_ERROR_HANDLE_INVALID, properties))
   \<and> (properties_type properties = XR_TYPE_SYSTEM_PROPERTIES
        \<and> m_instanceCreated rt \<and> inst = 1 \<and> (\<not> m_systemCreated rt \<or> systemId \<noteq> 1) \<longrightarrow>
      xrGetSystemProperties pvrMaxLayerCount rt inst systemId properties
        = (XR_ERROR_SYSTEM_INVALID, properties))
   \<and> (\<not> m_instanceCreated rt \<or> inst \<noteq> 1 \<longrightarrow>
      xrEnumerateEnvironmentBlendModes rt inst systemId viewConfigurationType cap cnt arr
        = (XR_ERROR_HANDLE_INVALID, cnt, arr))"
  by (simp add: xrGetSystem_def xrGetSystemProperties_def xrEnumerateEnvironmentBlendModes_def)

theorem validation_precedes_handle_check_witness:
  "xrGetSystem bench_api 2 (bench_getInfo\<lparr>getInfo_type := XR_TYPE_SYSTEM_PROPERTIES\<rparr>) 0
       bench_runtime (bench_world 0 [])
     = (Returned XR_ERROR_VALIDATION_FAILURE, 0, bench_runtime, bench_world 0 [])
   \<and> xrGetSystem bench_api 2 bench_getInfo 0 bench_runtime (bench_world 0 [])
     = (Returned XR_ERROR_HANDLE_INVALID, 0, bench_runtime, bench_world 0 [])
   \<and> xrGetSystemProperties 16 bench_runtime 2 1 (bench_properties XR_TYPE_SYSTEM_GET_INFO)
     = (XR_ERROR_VALIDATION_FAILURE, bench_properties XR_TYPE_SYSTEM_GET_INFO)
   \<and> xrGetSystemProperties 16 bench_runtime 2 1 (bench_properties XR_TYPE_SYSTEM_PROPERTIES)
     = (XR_ERROR_HANDLE_INVALID, bench_properties XR_TYPE_SYSTEM_PROPERTIES)
   \<and> xrGetSystemProperties 16 bench_runtime 1 1 (bench_properties XR_TYPE_SYSTEM_PROPERTIES)
     = (XR_ERROR_SYSTEM_INVALID, bench_properties XR_TYPE_SYSTEM_PROPERTIES)
   \<and> xrEnumerateEnvironmentBlendModes bench_runtime 2 1
        XR_VIEW_CONFIGURATION_TYPE_PRIMARY_STEREO 0 0 None
     = (XR_ERROR_HANDLE_INVALID, 0, None)"
proof -
  have t: "getInfo_type (bench_getInfo\<lparr>getInfo_type := XR_TYPE_SYSTEM_PROPERTIES\<rparr>)
             \<noteq> XR_TYPE_SYSTEM_GET_INFO"
          "getInfo_type bench_getInfo = XR_TYPE_SYSTEM_GET_INFO"
          "properties_type (bench_properties XR_TYPE_SYSTEM_GET_INFO) \<noteq> XR_TYPE_SYSTEM_PROPERTIES"
          "properties_type (bench_properties XR_TYPE_SYSTEM_PROPERTIES) = XR_TYPE_SYSTEM_PROPERTIES"
          "m_instanceCreated bench_runtime" "\<not> m_systemCreated bench_runtime"
          "(2 :: XrInstance) \<noteq> 1"
    by (simp_all add: bench_getInfo_def bench_properties_def bench_runtime_def)
  note a = validation_precedes_handle_check
      [where getInfo = "bench_getInfo\<lparr>getInfo_type := XR_TYPE_SYSTEM_PROPERTIES\<rparr>"
         and api = bench_api and inst = 2 and systemId = 0 and rt = bench_runtime
         and w = "bench_world 0 []" and properties = "bench_properties XR_TYPE_SYSTEM_GET_INFO"
         and pvrMaxLayerCount = 16
         and viewConfigurationType = XR_VIEW_CONFIGURATION_TYPE_PRIMARY_STEREO
         and cap = 0 and cnt = 0 and arr = None]
  note b = validation_precedes_handle_check
      [where getInfo = bench_getInfo
         and api = bench_api and inst = 2 and systemId = 0 and rt = bench_runtime
         and w = "bench_world 0 []" and properties = "bench_properties XR_TYPE_SYSTEM_PROPERTIES"
         and pvrMaxLayerCount = 16
         and viewConfigurationType = XR_VIEW_CONFIGURATION_TYPE_PRIMARY_STEREO
         and cap = 0 and cnt = 0 and arr = None]
  show ?thesis
    using t a b
    by (simp add: xrGetSystemProperties_def xrEnumerateEnvironmentBlendModes_def)
qed

text \<open>
  Claim C6 as stated fails: with no instance created, a wrong instance handle and a wrong
  type tag, both entry points answer \<open>XR_ERROR_VALIDATION_FAILURE\<close>.
\<close>

theorem handle_check_first_counterexample:
  "\<not> m_instanceCreated (bench_runtime\<lparr>m_instanceCreated := False\<rparr>) \<and> (2 :: XrInstance) \<noteq> 1
   \<and> fst (xrGetSystem bench_api 2 (bench_getInfo\<lparr>getInfo_type := XR_TYPE_SYSTEM_PROPERTIES\<rparr>) 0
            (bench_runtime\<lparr>m_instanceCreated := False\<rparr>) (bench_world 0 []))
       = Returned XR_ERROR_VALIDATION_FAILURE
   \<and> fst (xrGetSystemProperties 16 (bench_runtime\<lparr>m_instanceCreated := False\<rparr>) 2 1
            (bench_properties XR_TYPE_SYSTEM_GET_INFO))
       = XR_ERROR_VALIDATION_FAILURE"
  by (simp add: xrGetSystem_def xrGetSystemProperties_def bench_getInfo_def bench_properties_def
        bench_runtime_def)

section \<open>The capacity convention\<close>

text \<open>
  Claim C7. The table holds the opaque mode alone. Past the three checks, a call with
  capacity 0 sets the count to 1 and writes nothing; a call with a nonzero capacity below
  the table length fails with \<open>XR_ERROR_SIZE_INSUFFICIENT\<close> and writes nothing; a call
  with capacity at least 1 and an output array writes the opaque mode at index 0, leaves
  every other element as it was, and sets the count to 1. Line 327 guards the copy
  against a null array pointer, with which nothing is written.
\<close>

theorem enumerate_capacity_convention:
  "m_instanceCreated rt \<and> m_systemCreated rt \<Longrightarrow>
   (cap = 0 \<longrightarrow>
      xrEnumerateEnvironmentBlendModes rt 1 1 XR_VIEW_CONFIGURATION_TYPE_PRIMARY_STEREO cap cnt arr
        = (XR_SUCCESS, 1, arr))
   \<and> (cap \<noteq> 0 \<and> unat cap < length blendModes \<longrightarrow>
      xrEnumerateEnvironmentBlendModes rt 1 1 XR_VIEW_CONFIGURATION_TYPE_PRIMARY_STEREO cap cnt arr
        = (XR_ERROR_SIZE_INSUFFICIENT, cnt, arr))
   \<and> (1 \<le> cap \<longrightarrow>
      xrEnumerateEnvironmentBlendModes rt 1 1 XR_VIEW_CONFIGURATION_TYPE_PRIMARY_STEREO cap cnt
          (Some a)
        = (XR_SUCCESS, 1, Some (a(0 := XR_ENVIRONMENT_BLEND_MODE_OPAQUE))))
   \<and> (1 \<le> cap \<longrightarrow>
      xrEnumerateEnvironmentBlendModes rt 1 1 XR_VIEW_CONFIGURATION_TYPE_PRIMARY_STEREO cap cnt
          None
        = (XR_SUCCESS, 1, None))
   \<and> blendModes = [XR_ENVIRONMENT_BLEND_MODE_OPAQUE]"
  by (auto simp add: enumerate_passed blendModes_def capacity_simps word_le_nat_alt)

theorem enumerate_capacity_convention_witness:
  "m_instanceCreated bench_runtime_seen \<and> m_systemCreated bench_runtime_seen
   \<and> xrEnumerateEnvironmentBlendModes bench_runtime_seen 1 1
        XR_VIEW_CONFIGURATION_TYPE_PRIMARY_STEREO 0 7 (Some (\<lambda>i. XR_ENVIRONMENT_BLEND_MODE_ADDITIVE))
       = (XR_SUCCESS, 1, Some (\<lambda>i. XR_ENVIRONMENT_BLEND_MODE_ADDITIVE))
   \<and> xrEnumerateEnvironmentBlendModes bench_runtime_seen 1 1
        XR_VIEW_CONFIGURATION_TYPE_PRIMARY_STEREO 1 7 (Some (\<lambda>i. XR_ENVIRONMENT_BLEND_MODE_ADDITIVE))
       = (XR_SUCCESS, 1,
          Some ((\<lambda>i. XR_ENVIRONMENT_BLEND_MODE_ADDITIVE)(0 := XR_ENVIRONMENT_BLEND_MODE_OPAQUE)))"
proof -
  have h: "m_instanceCreated bench_runtime_seen \<and> m_systemCreated bench_runtime_seen"
    by (simp add: bench_runtime_seen_def bench_runtime_def)
  from h enumerate_capacity_convention [OF h, of 0 7 "Some (\<lambda>i. XR_ENVIRONMENT_BLEND_MODE_ADDITIVE)"
           "\<lambda>i. XR_ENVIRONMENT_BLEND_MODE_ADDITIVE"]
         enumerate_capacity_convention [OF h, of 1 7 None "\<lambda>i. XR_ENVIRONMENT_BLEND_MODE_ADDITIVE"]
  show ?thesis by simp
qed

section \<open>The scoped context switch\<close>

lemma glGetError_current:
  "currentDC (snd (glGetError t)) = currentDC t" "currentRC (snd (glGetError t)) = currentRC t"
  by (simp_all add: glGetError_def split: list.splits)

lemma glGetError_clean:
  "fst (glGetError t) = GL_NO_ERROR \<longleftrightarrow>
     filter (\<lambda>e. e \<noteq> GL_NO_ERROR) (errorFlags t (currentRC t)) = []"
proof (cases "filter (\<lambda>e. e \<noteq> GL_NO_ERROR) (errorFlags t (currentRC t))")
  case Nil
  then show ?thesis by (simp add: glGetError_def)
next
  case (Cons e es)
  then have "e \<in> set (filter (\<lambda>e. e \<noteq> GL_NO_ERROR) (errorFlags t (currentRC t)))" by simp
  then have "e \<noteq> GL_NO_ERROR" by simp
  with Cons show ?thesis by (simp add: glGetError_def)
qed

lemma glGetError_clean_state:
  assumes "fst (glGetError t) = GL_NO_ERROR"
  shows "snd (glGetError t) = t"
proof -
  from assms glGetError_clean [of t]
  have "filter (\<lambda>e. e \<noteq> GL_NO_ERROR) (errorFlags t (currentRC t)) = []" by simp
  then show ?thesis by (simp add: glGetError_def)
qed

lemma resetErrorCodes_unfold:
  "fst (glGetError t) \<noteq> GL_NO_ERROR \<Longrightarrow> resetErrorCodes t = resetErrorCodes (snd (glGetError t))"
  "fst (glGetError t) = GL_NO_ERROR \<Longrightarrow> resetErrorCodes t = t"
proof -
  show "fst (glGetError t) \<noteq> GL_NO_ERROR \<Longrightarrow> resetErrorCodes t = resetErrorCodes (snd (glGetError t))"
    by (subst resetErrorCodes.simps) (simp only: simp_thms if_True)
  show "fst (glGetError t) = GL_NO_ERROR \<Longrightarrow> resetErrorCodes t = t"
    by (subst resetErrorCodes.simps) (simp only: glGetError_clean_state simp_thms if_False)
qed

lemma resetErrorCodes_current:
  "currentDC (resetErrorCodes t) = currentDC t \<and> currentRC (resetErrorCodes t) = currentRC t
   \<and> filter (\<lambda>e. e \<noteq> GL_NO_ERROR) (errorFlags (resetErrorCodes t) (currentRC t)) = []"
proof (induction t rule: resetErrorCodes.induct)
  case (1 t)
  show ?case
  proof (cases "fst (glGetError t) \<noteq> GL_NO_ERROR")
    case True
    from "1.IH" [OF True] show ?thesis
      unfolding resetErrorCodes_unfold(1) [OF True] by (simp only: glGetError_current)
  next
    case False
    then have c: "fst (glGetError t) = GL_NO_ERROR" by simp
    from glGetError_clean [of t] c show ?thesis
      unfolding resetErrorCodes_unfold(2) [OF c] by simp
  qed
qed

lemma dtor_valid:
  "m_valid self \<Longrightarrow>
   GlContextSwitch_dtor self t =
     ((if fst (glGetError t) = GL_NO_ERROR then None else Some (fst (glGetError t))),
      wglMakeCurrent (m_glDC self) (m_glRC self) (snd (glGetError t)))"
  by (simp add: GlContextSwitch_dtor_def Let_def split: prod.splits)

text \<open>
  Claim C9, as amended. For a valid target context the scope leaves the device context
  and the rendering context that were current at construction current again, on every
  exit. At construction every recorded error flag of the target is cleared after the
  target is made current. At exit one recorded error flag of the context then current
  is read and cleared before the previous context is made current again, and a flag read
  there makes the scope fail: with the OpenGL error when the region completed, by
  termination when the region raised. For an invalid target context neither the
  constructor nor the destructor changes the thread's state.
\<close>

theorem GlContextSwitch_restores:
  "(valid context \<longrightarrow>
      (let t1 = snd (GlContextSwitch_ctor context storage t);
           t2 = snd (region t1);
           exit = fst (GlContextSwitch_scope context storage region t);
           t3 = snd (GlContextSwitch_scope context storage region t)
       in currentDC t3 = currentDC t \<and> currentRC t3 = currentRC t
          \<and> currentDC t1 = glDC context \<and> currentRC t1 = glRC context
          \<and> filter (\<lambda>e. e \<noteq> GL_NO_ERROR) (errorFlags t1 (glRC context)) = []
          \<and> t3 = wglMakeCurrent (currentDC t) (currentRC t) (snd (glGetError t2))
          \<and> exit =
              (case (fst (region t1), fst (glGetError t2) = GL_NO_ERROR) of
                 (Inr a, True) \<Rightarrow> Completed a
               | (Inr a, False) \<Rightarrow> OpenGLError (fst (glGetError t2))
               | (Inl e, True) \<Rightarrow> RegionRaised e
               | (Inl e, False) \<Rightarrow> Terminated)))
   \<and> (\<not> valid context \<longrightarrow>
        snd (GlContextSwitch_ctor context storage t) = t
        \<and> snd (GlContextSwitch_dtor (fst (GlContextSwitch_ctor context storage t)) t') = t'
        \<and> snd (GlContextSwitch_scope context storage region t) = snd (region t))"
proof (cases "valid context")
  case False
  then show ?thesis
    by (simp add: GlContextSwitch_ctor_def GlContextSwitch_dtor_def GlContextSwitch_scope_def
          split: prod.splits)
next
  case True
  let ?t0 = "wglMakeCurrent (glDC context) (glRC context) t"
  have c: "GlContextSwitch_ctor context storage t =
             (\<lparr>m_valid = True, m_glDC = currentDC t, m_glRC = currentRC t\<rparr>, resetErrorCodes ?t0)"
    using True by (simp add: GlContextSwitch_ctor_def wglGetCurrentDC_def wglGetCurrentContext_def)
  have t0: "currentDC ?t0 = glDC context" "currentRC ?t0 = glRC context"
    by (simp_all add: wglMakeCurrent_def)
  from resetErrorCodes_current [of ?t0] t0
  have r: "currentDC (resetErrorCodes ?t0) = glDC context"
          "currentRC (resetErrorCodes ?t0) = glRC context"
          "filter (\<lambda>e. e \<noteq> GL_NO_ERROR) (errorFlags (resetErrorCodes ?t0) (glRC context)) = []"
    by simp_all
  obtain res t2 where g: "region (resetErrorCodes ?t0) = (res, t2)"
    by (cases "region (resetErrorCodes ?t0)")
  have s: "GlContextSwitch_scope context storage region t =
       ((case (res, if fst (glGetError t2) = GL_NO_ERROR then None else Some (fst (glGetError t2))) of
           (Inr a, None) \<Rightarrow> Completed a
         | (Inr a, Some error) \<Rightarrow> OpenGLError error
         | (Inl e, None) \<Rightarrow> RegionRaised e
         | (Inl e, Some error) \<Rightarrow> Terminated),
        wglMakeCurrent (currentDC t) (currentRC t) (snd (glGetError t2)))"
    by (simp add: GlContextSwitch_scope_def c g dtor_valid)
  from True c r g s show ?thesis
    by (cases res) (simp_all add: Let_def wglMakeCurrent_def)
qed

lemmas gl_defs = GlContextSwitch_scope_def GlContextSwitch_ctor_def GlContextSwitch_dtor_def
  wglMakeCurrent_def wglGetCurrentDC_def wglGetCurrentContext_def glGetError_def GL_NO_ERROR_def
  bench_thread_def bench_context_def bench_region_def Let_def

theorem GlContextSwitch_restores_witness:
  "valid (bench_context True)
   \<and> currentDC (snd (GlContextSwitch_scope (bench_context True) (0, 0) (bench_region [1280])
                      (bench_thread (\<lambda>rc. [1282])))) = 3
   \<and> currentRC (snd (GlContextSwitch_scope (bench_context True) (0, 0) (bench_region [1280])
                      (bench_thread (\<lambda>rc. [1282])))) = 7
   \<and> errorFlags (snd (GlContextSwitch_ctor (bench_context True) (0, 0)
                         (bench_thread (\<lambda>rc. [1282])))) 9 = []
   \<and> fst (GlContextSwitch_scope (bench_context True) (0, 0) (bench_region [1280])
            (bench_thread (\<lambda>rc. [1282]))) = OpenGLError 1280
   \<and> \<not> valid (bench_context False)
   \<and> snd (GlContextSwitch_scope (bench_context False) (0, 0) (bench_region [1280])
            (bench_thread (\<lambda>rc. [1282])))
       = snd (bench_region [1280] (bench_thread (\<lambda>rc. [1282])))"
proof -
  have v: "valid (bench_context True)" "\<not> valid (bench_context False)"
    by (simp_all add: bench_context_def)
  have d: "errorFlags (snd (GlContextSwitch_ctor (bench_context True) (0, 0)
                         (bench_thread (\<lambda>rc. [1282])))) 9 = []"
          "fst (GlContextSwitch_scope (bench_context True) (0, 0) (bench_region [1280])
            (bench_thread (\<lambda>rc. [1282]))) = OpenGLError 1280"
    by (simp_all add: gl_defs resetErrorCodes.simps)
  have c: "currentDC (bench_thread (\<lambda>rc. [1282])) = 3" "currentRC (bench_thread (\<lambda>rc. [1282])) = 7"
    by (simp_all add: bench_thread_def)
  note a = GlContextSwitch_restores [of "bench_context True" "(0, 0)"
      "bench_thread (\<lambda>rc. [1282])" "bench_region [1280]", unfolded Let_def]
  note b = GlContextSwitch_restores [of "bench_context False" "(0, 0)"
      "bench_thread (\<lambda>rc. [1282])" "bench_region [1280]", unfolded Let_def]
  from a v(1) have r:
    "currentDC (snd (GlContextSwitch_scope (bench_context True) (0, 0) (bench_region [1280])
                      (bench_thread (\<lambda>rc. [1282])))) = currentDC (bench_thread (\<lambda>rc. [1282]))"
    "currentRC (snd (GlContextSwitch_scope (bench_context True) (0, 0) (bench_region [1280])
                      (bench_thread (\<lambda>rc. [1282])))) = currentRC (bench_thread (\<lambda>rc. [1282]))"
    by blast+
  from b v(2) have i:
    "snd (GlContextSwitch_scope (bench_context False) (0, 0) (bench_region [1280])
            (bench_thread (\<lambda>rc. [1282])))
       = snd (bench_region [1280] (bench_thread (\<lambda>rc. [1282])))"
    by blast
  from v d r i show ?thesis
    by (simp only: c simp_thms)
qed

text \<open>
  Claim C9 as stated fails in its middle part: when the region leaves two error flags on
  the target, the scope reports the first, restores the previous context, and the second
  flag is still recorded on the target.
\<close>

theorem GlContextSwitch_drain_counterexample:
  "valid (bench_context True)
   \<and> (case GlContextSwitch_scope (bench_context True) (0, 0) (bench_region [1280, 1281])
            (bench_thread (\<lambda>rc. [])) of
        (exit, t') \<Rightarrow>
          exit = OpenGLError 1280 \<and> currentDC t' = 3 \<and> currentRC t' = 7
          \<and> errorFlags t' (glRC (bench_context True)) = [1281])"
  by (simp add: gl_defs resetErrorCodes.simps)

end
